theory Spec2Isabelle
  imports Complex_Main
begin

section \<open>Values\<close>

text \<open>
  Floating-point numbers of Python and numpy. A finite float is a real number; the
  non-finite floats are kept, since the program's control flow depends on them
  (\<^verbatim>\<open>nan >= 0.8\<close> is false, the regression rejects them). Overflow and the
  sign of zero are not modelled. Rounding is treated in two ways. The logarithm, the
  quotient and the power are written in exact arithmetic: no branch of the program
  depends on how they are rounded. The regression and its score decide the
  classification, and a rounded result can fall on the other side of a comparison than
  the exact one (on a constant series, for instance); what these routines return is
  therefore a parameter of the model, and exact least squares is one value of that
  parameter.
\<close>

datatype pyfloat = Fin real | PInf | NInf | NaN

text \<open>The exceptions that the modelled code can raise.\<close>

datatype error =
    ValueError
  | KeyError
  | IndexError
  | ZeroDivisionError
  | FileNotFoundError
  | UnpicklingError
  | ProviderError

text \<open>
  A price observation of the historical closes of one ticker: \<open>None\<close> is a missing
  observation (NaN in the frame). The date index takes no part in any computation of the
  analysis and is left out; only its length matters, to the chart.
\<close>

type_synonym price = "real option"
type_synonym series = "price list"

section \<open>Trend analysis (data\_analysis.py)\<close>

subsection \<open>The libraries, as the code uses them\<close>

text \<open>\<^verbatim>\<open>data.dropna()\<close>: the observations that are present, in order.\<close>

fun dropna :: "series \<Rightarrow> real list" where
  "dropna [] = []"
| "dropna (None # ps) = dropna ps"
| "dropna (Some p # ps) = p # dropna ps"

text \<open>
  \<^verbatim>\<open>np.log\<close> never raises: it gives \<open>-inf\<close> at zero and NaN below zero
  (with a warning only).
\<close>

definition np_log :: "real \<Rightarrow> pyfloat" where
  "np_log x = (if 0 < x then Fin (ln x) else if x = 0 then NInf else NaN)"

text \<open>
  The input validation of \<^verbatim>\<open>LinearRegression.fit\<close>: it raises ValueError on an
  array with no sample and on an array holding NaN or an infinity.
\<close>

fun finite_values :: "pyfloat list \<Rightarrow> real list option" where
  "finite_values [] = Some []"
| "finite_values (Fin x # fs) =
     (case finite_values fs of None \<Rightarrow> None | Some xs \<Rightarrow> Some (x # xs))"
| "finite_values (_ # fs) = None"

definition check_array :: "pyfloat list \<Rightarrow> error + real list" where
  "check_array fs =
     (if fs = [] then Inl ValueError
      else case finite_values fs of None \<Rightarrow> Inl ValueError | Some xs \<Rightarrow> Inr xs)"

record linear_model =
  coef :: real
  intercept :: real

text \<open>
  What \<^verbatim>\<open>row[0]\<close> does on a row \<^verbatim>\<open>data.iloc[k]\<close> of the frame of closes;
  it depends on the libraries installed. When the provider's frame has two-level columns,
  \<^verbatim>\<open>data[price_column]\<close> is a frame of one column and the row is a Series
  labelled by the ticker: pandas 2 falls back to the position and gives the observation,
  pandas 3 looks the label 0 up and raises KeyError. When the provider's frame has plain
  columns, \<^verbatim>\<open>data[price_column]\<close> is a Series, the row is a float, and indexing
  it raises IndexError.
\<close>

datatype lookup = ByPosition | ByLabel | OfScalar

text \<open>
  The libraries as installed. For the regression: what it returns on validated input, in
  the floating-point arithmetic of the machine, that is the model that
  \<^verbatim>\<open>LinearRegression().fit(X, y)\<close> fits to one feature, the value that
  \<^verbatim>\<open>model.predict\<close> gives for one row, and the value of
  \<^verbatim>\<open>r2_score(y_true, y_pred)\<close> on two or more samples. Nothing is assumed about
  these three functions, so they stand as well for the installed routines applied to
  rounded logarithms. For pandas: the lookup above.
\<close>

record libraries =
  fit :: "real list \<Rightarrow> real list \<Rightarrow> linear_model"
  predict_row :: "linear_model \<Rightarrow> real \<Rightarrow> real"
  score :: "real list \<Rightarrow> real list \<Rightarrow> real"
  row_lookup :: lookup

text \<open>\<^verbatim>\<open>model.predict(X)\<close>: one prediction for each row, in order.\<close>

definition predict :: "libraries \<Rightarrow> linear_model \<Rightarrow> real list \<Rightarrow> real list" where
  "predict lib m ts = map (predict_row lib m) ts"

text \<open>
  \<^verbatim>\<open>r2_score(y_true, y_pred)\<close>: NaN (with a warning) on fewer than two samples,
  a finite number otherwise.
\<close>

definition r2_score :: "libraries \<Rightarrow> real list \<Rightarrow> real list \<Rightarrow> pyfloat" where
  "r2_score lib ys ps = (if length ps < 2 then NaN else Fin (score lib ys ps))"

subsection \<open>The regression in exact arithmetic\<close>

text \<open>
  Ordinary least squares with an intercept, on centred data, without rounding. When the
  centred feature is all zero (one sample) the solver returns the solution of least norm,
  slope 0.
\<close>

definition mean :: "real list \<Rightarrow> real" where
  "mean xs = sum_list xs / real (length xs)"

definition ols_fit :: "real list \<Rightarrow> real list \<Rightarrow> linear_model" where
  "ols_fit ts ys =
     (let tm = mean ts; ym = mean ys;
          sxx = (\<Sum>(t, y) \<leftarrow> zip ts ys. (t - tm) * (t - tm));
          sxy = (\<Sum>(t, y) \<leftarrow> zip ts ys. (t - tm) * (y - ym));
          slope = (if sxx = 0 then 0 else sxy / sxx)
      in \<lparr>coef = slope, intercept = ym - slope * tm\<rparr>)"

definition ols_predict_row :: "linear_model \<Rightarrow> real \<Rightarrow> real" where
  "ols_predict_row m t = coef m * t + intercept m"

text \<open>
  The score without rounding: \<open>1 - SS_res / SS_tot\<close> when both sums are non-zero, 0 when
  only the total sum of squares is zero, and 1 when the residual sum of squares is zero.
\<close>

definition ss_res :: "real list \<Rightarrow> real list \<Rightarrow> real" where
  "ss_res ys ps = (\<Sum>(y, p) \<leftarrow> zip ys ps. (y - p) * (y - p))"

definition ss_tot :: "real list \<Rightarrow> real" where
  "ss_tot ys = (\<Sum>y \<leftarrow> ys. (y - mean ys) * (y - mean ys))"

definition ols_score :: "real list \<Rightarrow> real list \<Rightarrow> real" where
  "ols_score ys ps =
     (if ss_res ys ps \<noteq> 0 \<and> ss_tot ys \<noteq> 0 then 1 - ss_res ys ps / ss_tot ys
      else if ss_res ys ps \<noteq> 0 then 0
      else 1)"

text \<open>
  The reference libraries: exact least squares, and the lookup by position under which
  \<^verbatim>\<open>determine_cagr\<close> returns a value.
\<close>

definition exact_libraries :: libraries where
  "exact_libraries =
     \<lparr>fit = ols_fit, predict_row = ols_predict_row, score = ols_score,
      row_lookup = ByPosition\<rparr>"

subsection \<open>Comparison of floats\<close>

text \<open>The comparison \<^verbatim>\<open>r2 >= r2_threshold\<close> of a float with a finite threshold.\<close>

fun float_ge :: "pyfloat \<Rightarrow> real \<Rightarrow> bool" where
  "float_ge (Fin x) t = (t \<le> x)"
| "float_ge PInf t = True"
| "float_ge NInf t = False"
| "float_ge NaN t = False"

subsection \<open>determine\_exp\_trend\<close>

text \<open>
  The function returns the tuple \<^verbatim>\<open>(True, r2, predicted_prices)\<close> or the tuple
  \<^verbatim>\<open>(False, None, None)\<close>; the two shapes are the two constructors. The
  libraries are the first argument of the model.
\<close>

datatype trend = Exponential pyfloat "real list" | NotExponential

fun is_exponential :: "trend \<Rightarrow> bool" where
  "is_exponential (Exponential r ps) = True"
| "is_exponential NotExponential = False"

fun trend_r2 :: "trend \<Rightarrow> pyfloat option" where
  "trend_r2 (Exponential r ps) = Some r"
| "trend_r2 NotExponential = None"

text \<open>\<^verbatim>\<open>np.arange(len(data))\<close>: the positions of the remaining observations.\<close>

definition time_index :: "real list \<Rightarrow> real list" where
  "time_index d = map real [0..<length d]"

text \<open>The default value of the parameter \<^verbatim>\<open>r2_threshold\<close>.\<close>

definition r2_threshold_default :: real where
  "r2_threshold_default = 8 / 10"

definition determine_exp_trend :: "libraries \<Rightarrow> series \<Rightarrow> real \<Rightarrow> error + trend" where
  "determine_exp_trend lib data r2_threshold =
     (let d = dropna data;
          ts = time_index d;
          log_prices = map np_log d
      in case check_array log_prices of
           Inl e \<Rightarrow> Inl e
         | Inr ys \<Rightarrow>
             (let model = fit lib ts ys;
                  predicted_log_prices = predict lib model ts;
                  r2 = r2_score lib ys predicted_log_prices;
                  slope = coef model
              in if float_ge r2 r2_threshold \<and> 0 < slope
                 then Inr (Exponential r2 (map exp predicted_log_prices))
                 else Inr NotExponential))"

subsection \<open>determine\_cagr\<close>

text \<open>
  The arithmetic of numpy's float64 on the values above: a division by zero gives an
  infinity or NaN (no exception), a power of a negative base to a fractional exponent
  gives NaN.
\<close>

fun np_divide :: "pyfloat \<Rightarrow> pyfloat \<Rightarrow> pyfloat" where
  "np_divide NaN b = NaN"
| "np_divide a NaN = NaN"
| "np_divide (Fin x) (Fin y) =
     (if y \<noteq> 0 then Fin (x / y)
      else if 0 < x then PInf else if x < 0 then NInf else NaN)"
| "np_divide (Fin x) PInf = Fin 0"
| "np_divide (Fin x) NInf = Fin 0"
| "np_divide PInf (Fin y) = (if y < 0 then NInf else PInf)"
| "np_divide NInf (Fin y) = (if y < 0 then PInf else NInf)"
| "np_divide PInf b = NaN"
| "np_divide NInf b = NaN"

definition int_power :: "real \<Rightarrow> int \<Rightarrow> real" where
  "int_power x k = (if 0 \<le> k then x ^ nat k else 1 / x ^ nat (- k))"

fun np_power :: "pyfloat \<Rightarrow> real \<Rightarrow> pyfloat" where
  "np_power NaN e = (if e = 0 then Fin 1 else NaN)"
| "np_power (Fin x) e =
     (if e = 0 then Fin 1
      else if 0 < x then Fin (x powr e)
      else if x = 0 then (if 0 < e then Fin 0 else PInf)
      else if of_int \<lfloor>e\<rfloor> = e then Fin (int_power x \<lfloor>e\<rfloor>)
      else NaN)"
| "np_power PInf e = (if e = 0 then Fin 1 else if 0 < e then PInf else Fin 0)"
| "np_power NInf e =
     (if e = 0 then Fin 1
      else if e < 0 then Fin 0
      else if of_int \<lfloor>e\<rfloor> = e \<and> odd \<lfloor>e\<rfloor> then NInf else PInf)"

fun np_minus_one :: "pyfloat \<Rightarrow> pyfloat" where
  "np_minus_one (Fin x) = Fin (x - 1)"
| "np_minus_one f = f"

fun price_float :: "price \<Rightarrow> pyfloat" where
  "price_float None = NaN"
| "price_float (Some x) = Fin x"

text \<open>
  \<^verbatim>\<open>data.iloc[k][0]\<close> on a row that exists: the observation under the lookup by
  position (NaN when it is missing), an exception under the other two.
\<close>

definition row_item :: "libraries \<Rightarrow> price \<Rightarrow> error + pyfloat" where
  "row_item lib p =
     (case row_lookup lib of
        ByPosition \<Rightarrow> Inr (price_float p)
      | ByLabel \<Rightarrow> Inl KeyError
      | OfScalar \<Rightarrow> Inl IndexError)"

text \<open>
  The argument is the frame that the caller holds: missing observations are still in
  it. \<^verbatim>\<open>data.iloc[0]\<close> and \<^verbatim>\<open>data.iloc[-1]\<close> raise IndexError on a frame
  with no row; \<^verbatim>\<open>1/years\<close> is Python's division and raises ZeroDivisionError.
\<close>

definition determine_cagr :: "libraries \<Rightarrow> series \<Rightarrow> int \<Rightarrow> error + pyfloat" where
  "determine_cagr lib data years =
     (case data of
        [] \<Rightarrow> Inl IndexError
      | p # ps \<Rightarrow>
          (case row_item lib p of
             Inl e \<Rightarrow> Inl e
           | Inr initial_price \<Rightarrow>
               (case row_item lib (last data) of
                  Inl e \<Rightarrow> Inl e
                | Inr final_price \<Rightarrow>
                    if years = 0 then Inl ZeroDivisionError
                    else Inr (np_minus_one
                           (np_power (np_divide final_price initial_price)
                              (1 / real_of_int years))))))"

subsection \<open>SymbolData and analyse\_symbols\<close>

type_synonym info = "string \<rightharpoonup> string"

record SymbolData =
  symbol_info :: info
  symbol_hist_data :: series
  r2 :: pyfloat
  cagr :: pyfloat

text \<open>
  \<^verbatim>\<open>save_plot_img\<close> draws the chart and returns the path of the file it wrote.
  The second call \<^verbatim>\<open>plt.plot(data.index, predicted_prices, ...)\<close> plots the
  predictions, one for each remaining observation, against the index of the frame as the
  caller holds it, missing observations included: matplotlib raises ValueError when the
  two lengths differ, before any file is written. The drawing itself is outside the
  model.
\<close>

definition save_plot_img :: "series \<Rightarrow> string \<Rightarrow> real list \<Rightarrow> error + string" where
  "save_plot_img data ticker_symbol predicted_prices =
     (if length data = length predicted_prices
      then Inr (''charts/'' @ ticker_symbol @ ''_chart.png'')
      else Inl ValueError)"

text \<open>
  The outcome of the pass over the list: the list as the pass left it (the records are
  mutated in place, so a pass that raises still leaves its earlier writes), the chart
  files written, and the exception that ended the pass, if any.
\<close>

record analysis_run =
  records :: "SymbolData list"
  charts :: "string list"
  raised :: "error option"

text \<open>
  The body of the loop of \<^verbatim>\<open>analyse_symbols\<close> for one record. The call passes
  no threshold, so the default applies. The parameter \<open>years\<close> is
  the constant \<^verbatim>\<open>HIST_DATA_YEARS\<close> of the module global\_constants.
\<close>

definition analyse_symbol ::
    "libraries \<Rightarrow> int \<Rightarrow> SymbolData \<Rightarrow> SymbolData \<times> string list \<times> error option" where
  "analyse_symbol lib years symbol_data =
     (case determine_exp_trend lib (symbol_hist_data symbol_data) r2_threshold_default of
        Inl e \<Rightarrow> (symbol_data, [], Some e)
      | Inr NotExponential \<Rightarrow> (symbol_data, [], None)
      | Inr (Exponential r predicted_values) \<Rightarrow>
          (case symbol_info symbol_data ''symbol'' of
             None \<Rightarrow> (symbol_data, [], Some KeyError)
           | Some ticker \<Rightarrow>
               (case save_plot_img (symbol_hist_data symbol_data) ticker predicted_values of
                  Inl e \<Rightarrow> (symbol_data, [], Some e)
                | Inr chart \<Rightarrow>
                    (let fitted = symbol_data\<lparr>r2 := r\<rparr>
                     in case determine_cagr lib (symbol_hist_data symbol_data) years of
                          Inl e \<Rightarrow> (fitted, [chart], Some e)
                        | Inr g \<Rightarrow> (fitted\<lparr>cagr := g\<rparr>, [chart], None)))))"

fun analyse_symbols :: "libraries \<Rightarrow> int \<Rightarrow> SymbolData list \<Rightarrow> analysis_run" where
  "analyse_symbols lib years [] = \<lparr>records = [], charts = [], raised = None\<rparr>"
| "analyse_symbols lib years (symbol_data # rest) =
     (case analyse_symbol lib years symbol_data of
        (sd, cs, Some e) \<Rightarrow> \<lparr>records = sd # rest, charts = cs, raised = Some e\<rparr>
      | (sd, cs, None) \<Rightarrow>
          (let run = analyse_symbols lib years rest
           in \<lparr>records = sd # records run, charts = cs @ charts run, raised = raised run\<rparr>))"

section \<open>Acquisition and cache (data\_manager.py)\<close>

subsection \<open>The cache file\<close>

text \<open>
  The file system maps a path to what the file holds: the pickle of a list of records,
  or bytes that are no pickle. \<^verbatim>\<open>pickle.load\<close> gives back the object that
  \<^verbatim>\<open>pickle.dump\<close> wrote.
\<close>

datatype content = Pickle "SymbolData list" | Garbage

type_synonym filesystem = "string \<rightharpoonup> content"

definition CACHE_FILENAME :: string where
  "CACHE_FILENAME = ''cache.pkl''"

definition cache_symbol_data :: "SymbolData list \<Rightarrow> filesystem \<Rightarrow> filesystem" where
  "cache_symbol_data symbol_data_list fs = fs(CACHE_FILENAME \<mapsto> Pickle symbol_data_list)"

definition load_cached_symbol_data :: "filesystem \<Rightarrow> error + SymbolData list" where
  "load_cached_symbol_data fs =
     (case fs CACHE_FILENAME of
        None \<Rightarrow> Inl FileNotFoundError
      | Some Garbage \<Rightarrow> Inl UnpicklingError
      | Some (Pickle symbol_data_list) \<Rightarrow> Inr symbol_data_list)"

subsection \<open>The providers\<close>

text \<open>
  A call to a provider raises or returns. The providers are a parameter: the symbol
  directory (Finnhub) and the market data (Yahoo Finance), each answering a ticker the
  same way during one run. A frame is its columns by name; the calls made are logged in
  order, the pauses between them are not.
\<close>

datatype 'a outcome = Raises | Returns 'a

type_synonym frame = "(string \<times> series) list"

record candidate =
  displaySymbol :: string
  description :: string

record provider =
  stock_symbols :: "candidate list outcome"
  ticker_history :: "string \<Rightarrow> frame outcome"
  ticker_get_info :: "string \<Rightarrow> info outcome"
  download :: "string \<Rightarrow> frame outcome"

datatype call = StockSymbols | TickerHistory string | TickerGetInfo string | Download string

text \<open>\<^verbatim>\<open>DataFrame.empty\<close>: no column or no row.\<close>

fun frame_empty :: "frame \<Rightarrow> bool" where
  "frame_empty [] = True"
| "frame_empty ((name, col) # cols) = (col = [])"

text \<open>
  The pair \<^verbatim>\<open>(True, info)\<close> is \<open>Some info\<close>, the pair \<^verbatim>\<open>(False, None)\<close> is
  \<open>None\<close>. Every exception is caught inside the function.
\<close>

definition validate_and_get_info :: "provider \<Rightarrow> string \<Rightarrow> info option \<times> call list" where
  "validate_and_get_info p ticker_symbol =
     (case ticker_history p ticker_symbol of
        Raises \<Rightarrow> (None, [TickerHistory ticker_symbol])
      | Returns data \<Rightarrow>
          if frame_empty data then (None, [TickerHistory ticker_symbol])
          else (case ticker_get_info p ticker_symbol of
                  Raises \<Rightarrow> (None, [TickerHistory ticker_symbol, TickerGetInfo ticker_symbol])
                | Returns i \<Rightarrow>
                    (Some i, [TickerHistory ticker_symbol, TickerGetInfo ticker_symbol])))"

definition get_historical_close_data :: "provider \<Rightarrow> string \<Rightarrow> series option \<times> call list" where
  "get_historical_close_data p ticker_symbol =
     (case download p ticker_symbol of
        Raises \<Rightarrow> (None, [Download ticker_symbol])
      | Returns data \<Rightarrow>
          if frame_empty data then (None, [Download ticker_symbol])
          else (let price_column =
                      (if ''Adj Close'' \<in> set (map fst data) then ''Adj Close'' else ''Close'')
                in (map_of data price_column, [Download ticker_symbol])))"

subsection \<open>get\_and\_cache\_data and get\_symbol\_data\<close>

text \<open>
  The loop of \<^verbatim>\<open>get_and_cache_data\<close> over the remaining candidates, with the
  counter \<open>i\<close>, the list built so far and the calls made so far.
\<close>

fun collect :: "provider \<Rightarrow> int \<Rightarrow> candidate list \<Rightarrow> int \<Rightarrow> SymbolData list \<Rightarrow> call list
    \<Rightarrow> SymbolData list \<times> call list" where
  "collect p num_symbols [] i symbol_data_list made = (symbol_data_list, made)"
| "collect p num_symbols (symbol # rest) i symbol_data_list made =
     (if i = num_symbols then (symbol_data_list, made)
      else
        (let symbol_string = displaySymbol symbol;
             (valid, c1) = validate_and_get_info p symbol_string
         in case valid of
              None \<Rightarrow> collect p num_symbols rest i symbol_data_list (made @ c1)
            | Some symbol_inf \<Rightarrow>
                (let (hist, c2) = get_historical_close_data p symbol_string
                 in case hist of
                      None \<Rightarrow> collect p num_symbols rest i symbol_data_list (made @ c1 @ c2)
                    | Some hist_data \<Rightarrow>
                        collect p num_symbols rest (i + 1)
                          (symbol_data_list @
                             [\<lparr>symbol_info = symbol_inf, symbol_hist_data = hist_data,
                               r2 = Fin 0, cagr = Fin 0\<rparr>])
                          (made @ c1 @ c2))))"

record world =
  files :: filesystem
  calls :: "call list"

definition get_and_cache_data :: "provider \<Rightarrow> int \<Rightarrow> world \<Rightarrow> (error + SymbolData list) \<times> world" where
  "get_and_cache_data p num_symbols w =
     (case stock_symbols p of
        Raises \<Rightarrow> (Inl ProviderError, w\<lparr>calls := calls w @ [StockSymbols]\<rparr>)
      | Returns symbols \<Rightarrow>
          (let (symbol_data_list, made) = collect p num_symbols symbols 0 [] []
           in (Inr symbol_data_list,
               \<lparr>files = cache_symbol_data symbol_data_list (files w),
                calls = calls w @ [StockSymbols] @ made\<rparr>)))"

definition get_symbol_data :: "provider \<Rightarrow> bool \<Rightarrow> int \<Rightarrow> world \<Rightarrow> (error + SymbolData list) \<times> world" where
  "get_symbol_data p read_from_cache num_symbols w =
     (if read_from_cache then (load_cached_symbol_data (files w), w)
      else get_and_cache_data p num_symbols w)"

section \<open>Notions used in the statements\<close>

subsection \<open>The fit of a series\<close>

text \<open>
  The log-linear fit of a series, written with the positions of the remaining
  observations: the natural logarithms of the remaining prices, the line that the library
  fits to them against the positions \<open>0, 1, \<dots>, n - 1\<close>, the score that the library
  gives to the predictions of that line at these positions, and the prices predicted.
\<close>

definition log_prices :: "series \<Rightarrow> real list" where
  "log_prices data = map ln (dropna data)"

definition fitted_model :: "libraries \<Rightarrow> series \<Rightarrow> linear_model" where
  "fitted_model lib data = fit lib (map real [0..<length (dropna data)]) (log_prices data)"

definition fitted_score :: "libraries \<Rightarrow> series \<Rightarrow> real" where
  "fitted_score lib data =
     score lib (log_prices data)
       (map (predict_row lib (fitted_model lib data)) (map real [0..<length (dropna data)]))"

definition fitted_prices :: "libraries \<Rightarrow> series \<Rightarrow> real list" where
  "fitted_prices lib data =
     map (\<lambda>i. exp (predict_row lib (fitted_model lib data) (real i))) [0..<length (dropna data)]"

subsection \<open>Candidates and calls\<close>

text \<open>
  The record that a candidate yields when its validation and its fetch both succeed:
  a candidate yielding usable data.
\<close>

definition usable :: "provider \<Rightarrow> candidate \<Rightarrow> SymbolData option" where
  "usable p c =
     (case fst (validate_and_get_info p (displaySymbol c)) of
        None \<Rightarrow> None
      | Some i \<Rightarrow>
          (case fst (get_historical_close_data p (displaySymbol c)) of
             None \<Rightarrow> None
           | Some h \<Rightarrow> Some \<lparr>symbol_info = i, symbol_hist_data = h, r2 = Fin 0, cagr = Fin 0\<rparr>))"

text \<open>The provider calls that examining one candidate makes.\<close>

definition calls_for :: "provider \<Rightarrow> candidate \<Rightarrow> call list" where
  "calls_for p c =
     (case fst (validate_and_get_info p (displaySymbol c)) of
        None \<Rightarrow> snd (validate_and_get_info p (displaySymbol c))
      | Some i \<Rightarrow>
          snd (validate_and_get_info p (displaySymbol c)) @
          snd (get_historical_close_data p (displaySymbol c)))"

text \<open>
  How many candidates of the list the scan looks at when it still needs \<open>k\<close> records.
\<close>

fun examined :: "provider \<Rightarrow> nat \<Rightarrow> candidate list \<Rightarrow> nat" where
  "examined p 0 cs = 0"
| "examined p (Suc k) [] = 0"
| "examined p (Suc k) (c # cs) =
     Suc (examined p (if usable p c = None then Suc k else k) cs)"

text \<open>The tickers that a call log shows a validation call for, in order.\<close>

fun validated :: "call list \<Rightarrow> string list" where
  "validated [] = []"
| "validated (TickerHistory s # cs) = s # validated cs"
| "validated (c # cs) = validated cs"

subsection \<open>Example data\<close>

text \<open>
  Three candidates: A and C validate and have history, B has no latest session.
\<close>

definition example_candidates :: "candidate list" where
  "example_candidates =
     [\<lparr>displaySymbol = ''A'', description = ''first''\<rparr>,
      \<lparr>displaySymbol = ''B'', description = ''second''\<rparr>,
      \<lparr>displaySymbol = ''C'', description = ''third''\<rparr>]"

definition example_provider :: provider where
  "example_provider =
     \<lparr>stock_symbols = Returns example_candidates,
      ticker_history = (\<lambda>s. if s = ''B'' then Returns [] else Returns [(''Close'', [Some 1])]),
      ticker_get_info = (\<lambda>s. Returns [''symbol'' \<mapsto> s]),
      download = (\<lambda>s. Returns [(''Close'', [Some 1, Some 2])])\<rparr>"

definition example_record :: "string \<Rightarrow> SymbolData" where
  "example_record s =
     \<lparr>symbol_info = [''symbol'' \<mapsto> s], symbol_hist_data = [Some 1, Some 2],
      r2 = Fin 0, cagr = Fin 0\<rparr>"

definition empty_world :: world where
  "empty_world = \<lparr>files = Map.empty, calls = []\<rparr>"

text \<open>
  Records as the acquisition builds them: prices \<open>e\<^sup>t\<close> (exact exponential
  growth), constant prices, one remaining observation, no remaining observation, a
  zero price, and exponential growth with one observation missing.
\<close>

definition growing_record :: SymbolData where
  "growing_record =
     \<lparr>symbol_info = [''symbol'' \<mapsto> ''G''],
      symbol_hist_data = [Some 1, Some (exp 1), Some (exp 2)],
      r2 = Fin 0, cagr = Fin 0\<rparr>"

definition flat_record :: SymbolData where
  "flat_record =
     \<lparr>symbol_info = [''symbol'' \<mapsto> ''F''],
      symbol_hist_data = [Some 1, Some 1],
      r2 = Fin 0, cagr = Fin 0\<rparr>"

definition short_record :: SymbolData where
  "short_record =
     \<lparr>symbol_info = [''symbol'' \<mapsto> ''S''],
      symbol_hist_data = [None, Some 1],
      r2 = Fin 0, cagr = Fin 0\<rparr>"

definition missing_record :: SymbolData where
  "missing_record =
     \<lparr>symbol_info = [''symbol'' \<mapsto> ''M''],
      symbol_hist_data = [None],
      r2 = Fin 0, cagr = Fin 0\<rparr>"

definition zero_record :: SymbolData where
  "zero_record =
     \<lparr>symbol_info = [''symbol'' \<mapsto> ''Z''],
      symbol_hist_data = [Some 1, Some 0],
      r2 = Fin 0, cagr = Fin 0\<rparr>"

definition gap_record :: SymbolData where
  "gap_record =
     \<lparr>symbol_info = [''symbol'' \<mapsto> ''P''],
      symbol_hist_data = [Some 1, None, Some (exp 1), Some (exp 2)],
      r2 = Fin 0, cagr = Fin 0\<rparr>"

text \<open>
  The example of the specification: prices that start at 100 and grow by ten percent
  from one observation to the next, over five steps.
\<close>

definition ten_percent_record :: SymbolData where
  "ten_percent_record =
     \<lparr>symbol_info = [''symbol'' \<mapsto> ''T''],
      symbol_hist_data = map (\<lambda>i. Some (100 * exp (ln (11 / 10) * real i))) [0..<6],
      r2 = Fin 0, cagr = Fin 0\<rparr>"


section \<open>Properties\<close>

subsection \<open>The scan over the candidates\<close>

lemma collect_step:
  "i \<noteq> n \<Longrightarrow>
   collect p n (c # cs) i acc made =
     (case usable p c of
        None \<Rightarrow> collect p n cs i acc (made @ calls_for p c)
      | Some sd \<Rightarrow> collect p n cs (i + 1) (acc @ [sd]) (made @ calls_for p c))"
proof -
  obtain v c1 where v: "validate_and_get_info p (displaySymbol c) = (v, c1)"
    by (cases "validate_and_get_info p (displaySymbol c)")
  obtain h c2 where h: "get_historical_close_data p (displaySymbol c) = (h, c2)"
    by (cases "get_historical_close_data p (displaySymbol c)")
  assume "i \<noteq> n"
  then show ?thesis
    by (cases v; cases h) (simp_all add: usable_def calls_for_def v h)
qed

lemma collect_stop: "collect p n (c # cs) n acc made = (acc, made)"
  by simp

lemma collect_fst:
  "i \<le> n \<Longrightarrow> fst (collect p n cs i acc made) = acc @ take (nat (n - i)) (List.map_filter (usable p) cs)"
proof (induction cs arbitrary: i acc made)
  case Nil
  then show ?case by (simp add: List.map_filter_simps)
next
  case (Cons c cs)
  show ?case
  proof (cases "i = n")
    case True
    then show ?thesis by simp
  next
    case False
    with Cons.prems have lt: "i < n" by simp
    then have step: "nat (n - i) = Suc (nat (n - (i + 1)))" by simp
    from lt have le: "i + 1 \<le> n" by simp
    show ?thesis
    proof (cases "usable p c")
      case None
      then show ?thesis
        using False Cons.IH[OF Cons.prems]
        by (simp only: collect_step[OF False] List.map_filter_simps option.case)
    next
      case (Some sd)
      then show ?thesis
        using False Cons.IH[OF le]
        by (simp only: collect_step[OF False] List.map_filter_simps option.case step take_Suc_Cons append_Cons append_Nil append_assoc)
    qed
  qed
qed

lemma collect_snd:
  "i \<le> n \<Longrightarrow>
   snd (collect p n cs i acc made) =
     made @ concat (map (calls_for p) (take (examined p (nat (n - i)) cs) cs))"
proof (induction cs arbitrary: i acc made)
  case Nil
  then show ?case by simp
next
  case (Cons c cs)
  show ?case
  proof (cases "i = n")
    case True
    then show ?thesis by simp
  next
    case False
    with Cons.prems have lt: "i < n" by simp
    then have step: "nat (n - i) = Suc (nat (n - (i + 1)))" by simp
    from lt have le: "i + 1 \<le> n" by simp
    show ?thesis
    proof (cases "usable p c")
      case None
      then show ?thesis
        using Cons.IH[OF Cons.prems, of acc "made @ calls_for p c"] step
        by (simp add: collect_step[OF False] del: collect.simps)
    next
      case (Some sd)
      then show ?thesis
        using Cons.IH[OF le, of "acc @ [sd]" "made @ calls_for p c"] step
        by (simp add: collect_step[OF False] del: collect.simps)
    qed
  qed
qed

lemma examined_le: "examined p k cs \<le> length cs"
  by (induction p k cs rule: examined.induct) auto

lemma examined_usable:
  "List.map_filter (usable p) (take (examined p k cs) cs) = take k (List.map_filter (usable p) cs)"
  by (induction p k cs rule: examined.induct) auto

lemma examined_stop:
  "examined p k cs = length cs \<or> length (List.map_filter (usable p) cs) \<ge> k"
  by (induction p k cs rule: examined.induct) auto

lemma examined_last:
  "0 < examined p k cs \<Longrightarrow>
   length (List.map_filter (usable p) (take (examined p k cs - 1) cs)) < k"
proof (induction p k cs rule: examined.induct)
  case (3 p k c cs)
  show ?case
  proof (cases "examined p (if usable p c = None then Suc k else k) cs")
    case 0
    then show ?thesis by simp
  next
    case (Suc m)
    then show ?thesis using 3 by (auto split: if_splits)
  qed
qed simp_all

lemma validated_append: "validated (xs @ ys) = validated xs @ validated ys"
  by (induction xs rule: validated.induct) auto

lemma validated_calls_for: "validated (calls_for p c) = [displaySymbol c]"
  by (auto simp: calls_for_def validate_and_get_info_def get_historical_close_data_def Let_def
      split: outcome.splits option.splits if_splits)

lemma validated_concat:
  "validated (concat (map (calls_for p) cs)) = map displaySymbol cs"
  by (induction cs) (simp_all add: validated_append validated_calls_for)

lemma example_usable:
  "List.map_filter (usable example_provider) example_candidates = [example_record ''A'', example_record ''C'']"
  by (simp add: example_candidates_def example_provider_def example_record_def usable_def
      validate_and_get_info_def get_historical_close_data_def)

subsection \<open>The batch that the scan returns\<close>

text \<open>
  Claim C4. For a target count that is not negative and any candidate list, the batch has
  at most \<open>n\<close> records and exactly \<open>min n u\<close> records, where \<open>u\<close> is the number of
  candidates yielding usable data. The scan validates a prefix of the candidate list and
  the batch is what that prefix yields; it ends with the target reached or the list
  exhausted, and it looks at a candidate only while fewer than \<open>n\<close> records are held.
\<close>

theorem batch_size_and_stop:
  assumes "stock_symbols p = Returns cs" and "0 \<le> n"
  shows "\<exists>batch w' k.
           get_and_cache_data p n w = (Inr batch, w') \<and>
           int (length batch) \<le> n \<and>
           int (length batch) = min n (int (length (List.map_filter (usable p) cs))) \<and>
           k \<le> length cs \<and>
           validated (drop (length (calls w)) (calls w')) = map displaySymbol (take k cs) \<and>
           batch = List.map_filter (usable p) (take k cs) \<and>
           (k = length cs \<or> int (length batch) = n) \<and>
           (0 < k \<longrightarrow> int (length (List.map_filter (usable p) (take (k - 1) cs))) < n)"
proof -
  define k where "k = examined p (nat n) cs"
  define batch where "batch = fst (collect p n cs 0 [] [])"
  define made where "made = snd (collect p n cs 0 [] [])"
  have b: "batch = take (nat n) (List.map_filter (usable p) cs)"
    using collect_fst[of 0 n p cs "[]" "[]"] assms(2) by (simp add: batch_def)
  have m: "made = concat (map (calls_for p) (take k cs))"
    using collect_snd[of 0 n p cs "[]" "[]"] assms(2) by (simp add: made_def k_def)
  define w' where
    "w' = \<lparr>files = cache_symbol_data batch (files w), calls = calls w @ [StockSymbols] @ made\<rparr>"
  have run: "get_and_cache_data p n w = (Inr batch, w')"
    by (simp add: get_and_cache_data_def assms(1) batch_def made_def w'_def split: prod.splits)
  have len: "int (length batch) = min n (int (length (List.map_filter (usable p) cs)))"
    using assms(2) unfolding b length_take by linarith
  have v: "validated (drop (length (calls w)) (calls w')) = map displaySymbol (take k cs)"
    by (simp add: m validated_concat w'_def)
  have bk: "batch = List.map_filter (usable p) (take k cs)"
    by (simp add: b k_def examined_usable)
  have stop: "k = length cs \<or> int (length batch) = n"
    using examined_stop[of p "nat n" cs] assms(2) by (auto simp: k_def b min_def)
  have last: "0 < k \<longrightarrow> int (length (List.map_filter (usable p) (take (k - 1) cs))) < n"
    using examined_last[of p "nat n" cs] assms(2) by (auto simp: k_def)
  have kl: "k \<le> length cs" by (simp add: k_def examined_le)
  from len have le: "int (length batch) \<le> n" by simp
  from run le len kl v bk stop last show ?thesis
    by blast
qed

text \<open>
  Claim C5. For a target count that is not negative, the batch is the list of the records
  of the candidates that validate and fetch, in the order of the candidate list, cut after
  \<open>n\<close> records: a candidate that fails is skipped and the ones after it are still
  processed.
\<close>

theorem batch_order:
  assumes "stock_symbols p = Returns cs" and "0 \<le> n"
  shows "fst (get_and_cache_data p n w) = Inr (take (nat n) (List.map_filter (usable p) cs))"
  using collect_fst[of 0 n p cs "[]" "[]"] assms
  by (auto simp: get_and_cache_data_def split: prod.splits)

theorem batch_order_witness:
  "stock_symbols example_provider = Returns example_candidates \<and> (0::int) \<le> 2 \<and>
   fst (get_and_cache_data example_provider 2 empty_world) =
     Inr [example_record ''A'', example_record ''C'']"
proof -
  have h: "stock_symbols example_provider = Returns example_candidates"
    by (simp add: example_provider_def)
  show ?thesis
    using batch_order[OF h, of 2 empty_world] h by (simp add: example_usable)
qed

theorem batch_size_and_stop_witness:
  "stock_symbols example_provider = Returns example_candidates \<and> (0::int) \<le> 1 \<and>
   (\<exists>batch w'. get_and_cache_data example_provider 1 empty_world = (Inr batch, w') \<and>
      length batch = 1 \<and> validated (calls w') = [''A''])"
proof -
  have h: "stock_symbols example_provider = Returns example_candidates"
    by (simp add: example_provider_def)
  obtain batch w' k where r: "get_and_cache_data example_provider 1 empty_world = (Inr batch, w')"
    and l: "int (length batch) = min 1 (int (length (List.map_filter (usable example_provider) example_candidates)))"
    and k: "k \<le> length example_candidates"
    and v: "validated (drop (length (calls empty_world)) (calls w')) = map displaySymbol (take k example_candidates)"
    and bk: "batch = List.map_filter (usable example_provider) (take k example_candidates)"
    and lst: "0 < k \<longrightarrow> int (length (List.map_filter (usable example_provider) (take (k - 1) example_candidates))) < 1"
    using batch_size_and_stop[OF h, of 1 empty_world] by auto
  have len: "length batch = 1" using l by (simp add: example_usable)
  have "k = 1"
  proof -
    have "k \<le> 3" using k by (simp add: example_candidates_def)
    then consider "k = 0" | "k = 1" | "k = 2" | "k = 3" by linarith
    then show ?thesis
      using len bk lst
      by cases (simp_all add: example_candidates_def example_provider_def usable_def
          validate_and_get_info_def get_historical_close_data_def)
  qed
  then have "validated (calls w') = [''A'']"
    using v by (simp add: empty_world_def example_candidates_def)
  then show ?thesis using h r len by simp
qed

subsection \<open>The cache\<close>

text \<open>
  Claim C8. Loading after saving gives back the saved batch, whatever the cache file held
  before (nothing, bytes that are no pickle, an earlier batch): saving replaces the
  content.
\<close>

theorem cache_round_trip:
  "load_cached_symbol_data (cache_symbol_data batch fs) = Inr batch \<and>
   cache_symbol_data batch (fs(CACHE_FILENAME := prior)) = cache_symbol_data batch fs \<and>
   load_cached_symbol_data (cache_symbol_data batch (cache_symbol_data earlier fs)) = Inr batch"
  by (simp add: load_cached_symbol_data_def cache_symbol_data_def)

text \<open>
  Claim C9. On the cache path the result is that of loading the cache file and the world is
  unchanged: no provider call is logged and no file is written. Neither the number of
  symbols nor the provider has any influence.
\<close>

theorem read_from_cache:
  "get_symbol_data p True num_symbols w = (load_cached_symbol_data (files w), w) \<and>
   get_symbol_data p True num_symbols w = get_symbol_data p' True num_symbols' w"
  by (simp add: get_symbol_data_def)

subsection \<open>Outcomes of the trend analysis\<close>

lemma finite_values_log:
  "\<forall>x\<in>set d. 0 < x \<Longrightarrow> finite_values (map np_log d) = Some (map ln d)"
  by (induction d) (simp_all add: np_log_def)

lemma finite_values_nonpos:
  "\<exists>x\<in>set d. x \<le> 0 \<Longrightarrow> finite_values (map np_log d) = None"
proof (induction d)
  case Nil
  then show ?case by simp
next
  case (Cons a d)
  show ?case
  proof (cases "0 < a")
    case True
    with Cons show ?thesis by (auto simp: np_log_def)
  next
    case False
    then show ?thesis by (cases "a = 0") (simp_all add: np_log_def)
  qed
qed

lemma check_array_log:
  "d \<noteq> [] \<Longrightarrow> \<forall>x\<in>set d. 0 < x \<Longrightarrow> check_array (map np_log d) = Inr (map ln d)"
  by (simp add: check_array_def finite_values_log)

lemma trend_one:
  assumes "dropna data = [x]" and "0 < x"
  shows "determine_exp_trend lib data thr = Inr NotExponential"
  using assms
  by (simp add: determine_exp_trend_def check_array_def np_log_def Let_def r2_score_def
      predict_def time_index_def)

lemma trend_accepted:
  assumes "2 \<le> length (dropna data)" and "\<forall>x\<in>set (dropna data). 0 < x"
  shows "determine_exp_trend lib data thr =
           (if thr \<le> fitted_score lib data \<and> 0 < coef (fitted_model lib data)
            then Inr (Exponential (Fin (fitted_score lib data)) (fitted_prices lib data))
            else Inr NotExponential)"
proof -
  from assms(1) have ne: "dropna data \<noteq> []" by auto
  from assms(1) have len: "\<not> length (dropna data) < 2" by simp
  show ?thesis
    using len
    by (simp add: determine_exp_trend_def check_array_log[OF ne assms(2)] Let_def
        fitted_score_def fitted_model_def fitted_prices_def log_prices_def r2_score_def
        predict_def time_index_def comp_def)
qed

lemma trend_empty: "dropna data = [] \<Longrightarrow> determine_exp_trend lib data thr = Inl ValueError"
  by (simp add: determine_exp_trend_def check_array_def)

lemma trend_nonpos:
  "\<exists>x\<in>set (dropna data). x \<le> 0 \<Longrightarrow> determine_exp_trend lib data thr = Inl ValueError"
  by (auto simp: determine_exp_trend_def check_array_def finite_values_nonpos Let_def)

lemma trend_predictions:
  "determine_exp_trend lib data thr = Inr (Exponential r ps) \<Longrightarrow>
   length ps = length (dropna data)"
  by (auto simp: determine_exp_trend_def Let_def predict_def time_index_def
      split: sum.splits if_splits)

lemma exact_libraries_simps:
  "fit exact_libraries = ols_fit"
  "predict_row exact_libraries m t = coef m * t + intercept m"
  "score exact_libraries = ols_score"
  "row_lookup exact_libraries = ByPosition"
  by (simp_all add: exact_libraries_def ols_predict_row_def)

lemma example_trend:
  "determine_exp_trend exact_libraries [Some 1, Some (exp 1), Some (exp 2)] r2_threshold_default =
     Inr (Exponential (Fin 1) [1, exp 1, exp 2])"
  by (simp add: determine_exp_trend_def check_array_def np_log_def time_index_def ols_fit_def
      exact_libraries_simps ols_score_def
      mean_def predict_def r2_score_def ss_res_def ss_tot_def Let_def r2_threshold_default_def)

subsection \<open>The pass over the list\<close>

lemma analyse_symbol_not_exponential:
  "determine_exp_trend lib (symbol_hist_data sd) r2_threshold_default = Inr NotExponential \<Longrightarrow>
   analyse_symbol lib years sd = (sd, [], None)"
  by (simp add: analyse_symbol_def)

lemma analyse_symbol_error:
  "determine_exp_trend lib (symbol_hist_data sd) r2_threshold_default = Inl e \<Longrightarrow>
   analyse_symbol lib years sd = (sd, [], Some e)"
  by (simp add: analyse_symbol_def)

lemma analyse_symbol_frame:
  "symbol_info (fst (analyse_symbol lib years sd)) = symbol_info sd \<and>
   symbol_hist_data (fst (analyse_symbol lib years sd)) = symbol_hist_data sd"
  by (simp add: analyse_symbol_def Let_def split: sum.splits trend.splits option.splits)

lemma analyse_symbol_unclassified:
  "\<forall>r ps. determine_exp_trend lib (symbol_hist_data sd) r2_threshold_default \<noteq> Inr (Exponential r ps) \<Longrightarrow>
   fst (analyse_symbol lib years sd) = sd"
  by (simp add: analyse_symbol_def Let_def split: sum.splits trend.splits option.splits)

lemma analyse_symbol_raised:
  "snd (snd (analyse_symbol lib years sd)) = Some e \<Longrightarrow>
   cagr (fst (analyse_symbol lib years sd)) = cagr sd"
  by (simp add: analyse_symbol_def Let_def split: sum.splits trend.splits option.splits)

lemma analyse_symbols_length: "length (records (analyse_symbols lib years xs)) = length xs"
  by (induction xs) (auto simp: Let_def split: prod.splits option.splits)

lemma analyse_symbols_nth:
  "i < length xs \<Longrightarrow>
   records (analyse_symbols lib years xs) ! i = xs ! i \<or>
   records (analyse_symbols lib years xs) ! i = fst (analyse_symbol lib years (xs ! i))"
proof (induction xs arbitrary: i)
  case Nil
  then show ?case by simp
next
  case (Cons x xs)
  obtain sd cs e where a: "analyse_symbol lib years x = (sd, cs, e)"
    by (cases "analyse_symbol lib years x") auto
  show ?case
  proof (cases i)
    case 0
    then show ?thesis using a by (cases e) (simp_all add: Let_def)
  next
    case (Suc j)
    with Cons.prems have "j < length xs" by simp
    from Cons.IH[OF this] show ?thesis using a Suc by (cases e) (simp_all add: Let_def)
  qed
qed

text \<open>
  The pass has dealt with the record at position \<open>i\<close> without an exception when the pass
  over the first \<open>i + 1\<close> records raises none; what the pass does after that record has no
  part in what it wrote to it.
\<close>

lemma analyse_symbols_reached:
  "i < length xs \<Longrightarrow> raised (analyse_symbols lib years (take (Suc i) xs)) = None \<Longrightarrow>
   records (analyse_symbols lib years xs) ! i = fst (analyse_symbol lib years (xs ! i)) \<and>
   snd (snd (analyse_symbol lib years (xs ! i))) = None"
proof (induction xs arbitrary: i)
  case Nil
  then show ?case by simp
next
  case (Cons x xs)
  obtain sd cs e where a: "analyse_symbol lib years x = (sd, cs, e)"
    by (cases "analyse_symbol lib years x") auto
  from Cons.prems(2) a have e: "e = None" by (cases e) (simp_all add: Let_def)
  show ?case
  proof (cases i)
    case 0
    then show ?thesis using a e by (simp add: Let_def)
  next
    case (Suc j)
    with Cons.prems have j: "j < length xs" by simp
    from Cons.prems(2) a e Suc have "raised (analyse_symbols lib years (take (Suc j) xs)) = None"
      by (simp add: Let_def)
    from Cons.IH[OF j this] show ?thesis using a e Suc by (simp add: Let_def)
  qed
qed

lemma analyse_symbols_not_reached:
  "i < length xs \<Longrightarrow> raised (analyse_symbols lib years (take (Suc i) xs)) \<noteq> None \<Longrightarrow>
   cagr (records (analyse_symbols lib years xs) ! i) = cagr (xs ! i)"
proof (induction xs arbitrary: i)
  case Nil
  then show ?case by simp
next
  case (Cons x xs)
  obtain sd cs e where a: "analyse_symbol lib years x = (sd, cs, e)"
    by (cases "analyse_symbol lib years x") auto
  show ?case
  proof (cases e)
    case (Some err)
    have "cagr sd = cagr x" using analyse_symbol_raised[of lib years x err] a Some by simp
    then show ?thesis using a Some by (cases i) simp_all
  next
    case None
    show ?thesis
    proof (cases i)
      case 0
      with Cons.prems(2) a None show ?thesis by (simp add: Let_def)
    next
      case (Suc j)
      with Cons.prems have j: "j < length xs" by simp
      from Cons.prems(2) a None Suc
      have "raised (analyse_symbols lib years (take (Suc j) xs)) \<noteq> None"
        by (simp add: Let_def)
      from Cons.IH[OF j this] show ?thesis using a None Suc by (simp add: Let_def)
    qed
  qed
qed

lemma analyse_symbols_complete:
  assumes "raised (analyse_symbols lib years xs) = None"
  shows "raised (analyse_symbols lib years (take n xs)) = None"
  using assms
proof (induction xs arbitrary: n)
  case Nil
  then show ?case by simp
next
  case (Cons x xs)
  obtain sd cs e where a: "analyse_symbol lib years x = (sd, cs, e)"
    by (cases "analyse_symbol lib years x") auto
  with Cons.prems have e: "e = None" by (cases e) (simp_all add: Let_def)
  with a Cons.prems have r: "raised (analyse_symbols lib years xs) = None"
    by (simp add: Let_def)
  show ?case
  proof (cases n)
    case 0
    then show ?thesis by simp
  next
    case (Suc m)
    then show ?thesis using a e Cons.IH[OF r, of m] by (simp add: Let_def)
  qed
qed

subsection \<open>One record through the pass\<close>

lemma growing_analysed:
  "analyse_symbol exact_libraries 2 growing_record =
     (growing_record\<lparr>r2 := Fin 1, cagr := Fin (exp 1 - 1)\<rparr>, [''charts/G_chart.png''], None)"
proof -
  have p: "exp (2::real) powr (1 / 2) = exp 1"
    by (simp add: powr_def)
  have t: "determine_exp_trend exact_libraries (symbol_hist_data growing_record)
      r2_threshold_default = Inr (Exponential (Fin 1) [1, exp 1, exp 2])"
    using example_trend by (simp add: growing_record_def)
  have c: "determine_cagr exact_libraries (symbol_hist_data growing_record) 2 =
      Inr (Fin (exp 1 - 1))"
    by (simp add: growing_record_def determine_cagr_def row_item_def exact_libraries_simps p)
  have i: "symbol_info growing_record ''symbol'' = Some ''G''"
    by (simp add: growing_record_def)
  have s: "save_plot_img (symbol_hist_data growing_record) ''G'' [1, exp 1, exp 2] =
      Inr ''charts/G_chart.png''"
    by (simp add: save_plot_img_def growing_record_def)
  show ?thesis
    unfolding analyse_symbol_def t c i
    by (simp add: s)
qed

lemma gap_analysed:
  "analyse_symbol exact_libraries years gap_record = (gap_record, [], Some ValueError)"
proof -
  have "dropna (symbol_hist_data gap_record) = [1, exp 1, exp 2]"
    by (simp add: gap_record_def)
  then have "determine_exp_trend exact_libraries (symbol_hist_data gap_record) thr =
      determine_exp_trend exact_libraries [Some 1, Some (exp 1), Some (exp 2)] thr" for thr
    by (simp add: determine_exp_trend_def)
  then have t: "determine_exp_trend exact_libraries (symbol_hist_data gap_record)
      r2_threshold_default = Inr (Exponential (Fin 1) [1, exp 1, exp 2])"
    using example_trend by simp
  have i: "symbol_info gap_record ''symbol'' = Some ''P''"
    by (simp add: gap_record_def)
  have s: "save_plot_img (symbol_hist_data gap_record) ''P'' [1, exp 1, exp 2] = Inl ValueError"
    by (simp add: save_plot_img_def gap_record_def)
  show ?thesis
    unfolding analyse_symbol_def t i by (simp add: s)
qed

lemma dropna_mem: "Some x \<in> set h \<Longrightarrow> x \<in> set (dropna h)"
  by (induction h rule: dropna.induct) auto

lemma dropna_length: "length (dropna h) \<le> length h"
  by (induction h rule: dropna.induct) auto

lemma dropna_all_present: "length h = length (dropna h) \<Longrightarrow> h = map Some (dropna h)"
proof (induction h rule: dropna.induct)
  case 1
  then show ?case by simp
next
  case (2 ps)
  with dropna_length[of ps] show ?case by simp
next
  case (3 p ps)
  then show ?case by simp
qed

lemma trend_positive:
  assumes "determine_exp_trend lib h thr = Inr tr"
  shows "\<forall>x\<in>set (dropna h). 0 < x"
proof (rule ccontr)
  assume "\<not> (\<forall>x\<in>set (dropna h). 0 < x)"
  then have "\<exists>x\<in>set (dropna h). x \<le> 0" by (auto simp: not_less)
  from trend_nonpos[OF this] assms show False by simp
qed

lemma trend_nonempty:
  assumes "determine_exp_trend lib h thr = Inr tr"
  shows "dropna h \<noteq> []"
  using assms trend_empty[of h lib thr] by auto

lemma cagr_value:
  assumes "row_lookup lib = ByPosition" and "years \<noteq> 0"
    and "0 < p0" and "0 < p1" and "last (Some p0 # rest) = Some p1"
  shows "determine_cagr lib (Some p0 # rest) years =
           Inr (Fin ((p1 / p0) powr (1 / real_of_int years) - 1))"
proof -
  have "0 < p1 / p0" using assms(3,4) by simp
  then show ?thesis
    using assms(1,2,3) unfolding determine_cagr_def list.case row_item_def assms(5)
    by simp
qed

lemma cagr_returns:
  assumes "determine_cagr lib (p # rest) years = Inr g"
  shows "row_lookup lib = ByPosition \<and> years \<noteq> 0"
  using assms
  by (cases "row_lookup lib") (simp_all add: determine_cagr_def row_item_def split: if_splits)

lemma dropna_no_gap: "None \<notin> set h \<Longrightarrow> length (dropna h) = length h"
  by (induction h rule: dropna.induct) auto

text \<open>
  Under the other two lookups the pass ends at the first classified record whose chart
  could be drawn: the coefficient of determination has been written, the growth rate has
  not.
\<close>

lemma analyse_symbol_lookup_raises:
  assumes t: "determine_exp_trend lib (symbol_hist_data sd) r2_threshold_default =
      Inr (Exponential r ps)"
    and i: "symbol_info sd ''symbol'' = Some ticker"
    and g: "None \<notin> set (symbol_hist_data sd)"
    and l: "row_lookup lib \<noteq> ByPosition"
  shows "analyse_symbol lib years sd =
           (sd\<lparr>r2 := r\<rparr>, [''charts/'' @ ticker @ ''_chart.png''],
            Some (if row_lookup lib = ByLabel then KeyError else IndexError))"
proof -
  define h where "h = symbol_hist_data sd"
  have "length ps = length h"
    using trend_predictions[OF t] dropna_no_gap[OF g] by (simp add: h_def)
  then have s: "save_plot_img h ticker ps = Inr (''charts/'' @ ticker @ ''_chart.png'')"
    by (simp add: save_plot_img_def)
  have "dropna h \<noteq> []" using trend_nonempty[OF t] by (simp add: h_def)
  then obtain p rest where hp: "h = p # rest" by (cases h) auto
  have c: "determine_cagr lib h years =
      Inl (if row_lookup lib = ByLabel then KeyError else IndexError)"
    using l by (cases "row_lookup lib") (simp_all add: determine_cagr_def row_item_def hp)
  show ?thesis
    using t i s c by (simp add: analyse_symbol_def h_def)
qed

text \<open>
  Claim C7. The growth rate of every record after the pass, whether or not the pass ended
  with an exception. The pass has dealt with the record at position \<open>i\<close> when the pass
  over the first \<open>i + 1\<close> records raises nothing. A record that is classified exponential
  and that the pass has dealt with has \<open>cagr = (p1 / p0) powr (1 / years) - 1\<close>, where
  \<open>p0\<close> and \<open>p1\<close> are the first and the last observation of its own series, both
  present and positive, and \<open>years\<close> is the configured number of years, which is not
  zero; the length of the series has no part in it. Every other record keeps the growth
  rate it had: one that is not classified, one that the pass did not reach, and the one
  at which the pass ended. So a growth rate is written only for a classified series with
  no missing observation (the chart of any other cannot be drawn) and only under the
  lookup by position (under the other two \<^verbatim>\<open>determine_cagr\<close> raises). The value
  is written in exact arithmetic.
\<close>

theorem growth_rate:
  assumes "i < length xs"
  shows "if (\<exists>r ps. determine_exp_trend lib (symbol_hist_data (xs ! i)) r2_threshold_default =
                Inr (Exponential r ps)) \<and>
            raised (analyse_symbols lib years (take (Suc i) xs)) = None
         then \<exists>p0 p1 rest.
                symbol_hist_data (xs ! i) = Some p0 # rest \<and>
                last (Some p0 # rest) = Some p1 \<and> 0 < p0 \<and> 0 < p1 \<and> years \<noteq> 0 \<and>
                cagr (records (analyse_symbols lib years xs) ! i) =
                  Fin ((p1 / p0) powr (1 / real_of_int years) - 1)
         else cagr (records (analyse_symbols lib years xs) ! i) = cagr (xs ! i)"
proof (cases "raised (analyse_symbols lib years (take (Suc i) xs)) = None")
  case False
  then have n: "\<not> ((\<exists>r ps. determine_exp_trend lib (symbol_hist_data (xs ! i))
      r2_threshold_default = Inr (Exponential r ps)) \<and>
      raised (analyse_symbols lib years (take (Suc i) xs)) = None)"
    by blast
  show ?thesis
    unfolding if_not_P[OF n] by (rule analyse_symbols_not_reached[OF assms False])
next
  case True
  define sd where "sd = xs ! i"
  define h where "h = symbol_hist_data sd"
  from analyse_symbols_reached[OF assms True] have
    rec: "records (analyse_symbols lib years xs) ! i = fst (analyse_symbol lib years sd)"
    and ok: "snd (snd (analyse_symbol lib years sd)) = None"
    by (simp_all add: sd_def)
  show ?thesis
  proof (cases "\<exists>r ps. determine_exp_trend lib h r2_threshold_default = Inr (Exponential r ps)")
    case False
    then have "fst (analyse_symbol lib years sd) = sd"
      by (intro analyse_symbol_unclassified) (simp add: h_def)
    then have e: "cagr (records (analyse_symbols lib years xs) ! i) = cagr (xs ! i)"
      using rec by (simp add: sd_def)
    from False have n: "\<not> ((\<exists>r ps. determine_exp_trend lib (symbol_hist_data (xs ! i))
        r2_threshold_default = Inr (Exponential r ps)) \<and>
        raised (analyse_symbols lib years (take (Suc i) xs)) = None)"
      by (simp add: h_def sd_def)
    show ?thesis unfolding if_not_P[OF n] by (rule e)
  next
    case c: True
    then obtain r ps where t: "determine_exp_trend lib h r2_threshold_default =
        Inr (Exponential r ps)"
      by blast
    txt \<open>The pass went through the body of the loop for this record without raising.\<close>
    from ok t obtain ticker where i: "symbol_info sd ''symbol'' = Some ticker"
      by (cases "symbol_info sd ''symbol''") (simp_all add: analyse_symbol_def h_def)
    from ok t i obtain chart where s: "save_plot_img h ticker ps = Inr chart"
      by (cases "save_plot_img h ticker ps") (simp_all add: analyse_symbol_def h_def)
    from ok t i s obtain g where g: "determine_cagr lib h years = Inr g"
      by (cases "determine_cagr lib h years") (simp_all add: analyse_symbol_def h_def)
    txt \<open>The chart was drawn, so no observation is missing, and all are positive.\<close>
    from s have "length h = length ps" by (simp add: save_plot_img_def split: if_splits)
    then have "length h = length (dropna h)" using trend_predictions[OF t] by simp
    then have full: "h = map Some (dropna h)" by (rule dropna_all_present)
    have pos: "\<forall>x\<in>set (dropna h). 0 < x" using trend_positive[OF t] .
    have ne: "dropna h \<noteq> []" using trend_nonempty[OF t] .
    then obtain p0 d where d: "dropna h = p0 # d" by (cases "dropna h") auto
    define rest where "rest = map Some d"
    define p1 where "p1 = last (dropna h)"
    have hp: "h = Some p0 # rest" using full d by (simp add: rest_def)
    have "last h = Some p1"
      using full ne last_map[of "dropna h" Some] by (simp add: p1_def)
    then have l: "last (Some p0 # rest) = Some p1" using hp by simp
    have p0: "0 < p0" using pos d by simp
    have p1: "0 < p1" unfolding p1_def using pos ne last_in_set by blast
    txt \<open>The growth rate was computed, from the first and the last observation.\<close>
    have by_position: "row_lookup lib = ByPosition" and y: "years \<noteq> 0"
      using cagr_returns[of lib "Some p0" rest years g] g hp by simp_all
    have v: "determine_cagr lib h years =
        Inr (Fin ((p1 / p0) powr (1 / real_of_int years) - 1))"
      unfolding hp using cagr_value[OF by_position y p0 p1 l] .
    have "analyse_symbol lib years sd =
        (sd\<lparr>r2 := r, cagr := Fin ((p1 / p0) powr (1 / real_of_int years) - 1)\<rparr>,
         [chart], None)"
      using t i s v by (simp add: analyse_symbol_def h_def)
    then have "cagr (records (analyse_symbols lib years xs) ! i) =
        Fin ((p1 / p0) powr (1 / real_of_int years) - 1)"
      using rec by simp
    with hp l p0 p1 y have e: "\<exists>p0 p1 rest.
        symbol_hist_data (xs ! i) = Some p0 # rest \<and>
        last (Some p0 # rest) = Some p1 \<and> 0 < p0 \<and> 0 < p1 \<and> years \<noteq> 0 \<and>
        cagr (records (analyse_symbols lib years xs) ! i) =
          Fin ((p1 / p0) powr (1 / real_of_int years) - 1)"
      unfolding h_def sd_def by blast
    from c True have both: "(\<exists>r ps. determine_exp_trend lib (symbol_hist_data (xs ! i))
        r2_threshold_default = Inr (Exponential r ps)) \<and>
        raised (analyse_symbols lib years (take (Suc i) xs)) = None"
      by (simp add: h_def sd_def)
    show ?thesis unfolding if_P[OF both] by (rule e)
  qed
qed

text \<open>
  Claim C10. The pass keeps the length and the order of the list, never changes
  \<open>symbol_info\<close> or \<open>symbol_hist_data\<close> of a record, and leaves every record that
  is not classified exponential exactly as it was. This holds also for a pass that ends
  with an exception.
\<close>

theorem analysis_frame:
  "length (records (analyse_symbols lib years xs)) = length xs \<and>
   (\<forall>i<length xs.
      symbol_info (records (analyse_symbols lib years xs) ! i) = symbol_info (xs ! i) \<and>
      symbol_hist_data (records (analyse_symbols lib years xs) ! i) = symbol_hist_data (xs ! i) \<and>
      ((\<forall>r ps. determine_exp_trend lib (symbol_hist_data (xs ! i)) r2_threshold_default \<noteq> Inr (Exponential r ps))
         \<longrightarrow> records (analyse_symbols lib years xs) ! i = xs ! i))"
proof (intro conjI allI impI)
  show "length (records (analyse_symbols lib years xs)) = length xs"
    by (rule analyse_symbols_length)
next
  fix i assume i: "i < length xs"
  from analyse_symbols_nth[OF i, of lib years]
  show "symbol_info (records (analyse_symbols lib years xs) ! i) = symbol_info (xs ! i)"
    using analyse_symbol_frame[of lib years "xs ! i"] by auto
  from analyse_symbols_nth[OF i, of lib years]
  show "symbol_hist_data (records (analyse_symbols lib years xs) ! i) = symbol_hist_data (xs ! i)"
    using analyse_symbol_frame[of lib years "xs ! i"] by auto
  assume "\<forall>r ps. determine_exp_trend lib (symbol_hist_data (xs ! i)) r2_threshold_default \<noteq> Inr (Exponential r ps)"
  from analyse_symbol_unclassified[OF this, of years] analyse_symbols_nth[OF i, of lib years]
  show "records (analyse_symbols lib years xs) ! i = xs ! i" by auto
qed

subsection \<open>The examples, evaluated\<close>

lemma example_fit:
  "fitted_model exact_libraries [Some 1, Some (exp 1), Some (exp 2)] = \<lparr>coef = 1, intercept = 0\<rparr>"
  "fitted_score exact_libraries [Some 1, Some (exp 1), Some (exp 2)] = 1"
  by (simp_all add: fitted_score_def fitted_model_def log_prices_def ols_fit_def
      exact_libraries_simps ols_score_def mean_def ss_res_def ss_tot_def Let_def)

lemma flat_trend: "determine_exp_trend exact_libraries [Some 1, Some 1] thr = Inr NotExponential"
  by (simp add: determine_exp_trend_def check_array_def np_log_def time_index_def ols_fit_def
      exact_libraries_simps mean_def predict_def r2_score_def Let_def)

lemma flat_analysed: "analyse_symbol exact_libraries years flat_record = (flat_record, [], None)"
  using flat_trend by (simp add: analyse_symbol_def flat_record_def)

lemma example_pass:
  "analyse_symbols exact_libraries 2 [growing_record, flat_record] =
     \<lparr>records = [growing_record\<lparr>r2 := Fin 1, cagr := Fin (exp 1 - 1)\<rparr>, flat_record],
      charts = [''charts/G_chart.png''], raised = None\<rparr>"
  by (simp add: growing_analysed flat_analysed)

theorem analysis_frame_witness:
  "length (records (analyse_symbols exact_libraries 2 [growing_record, flat_record])) = 2 \<and>
   symbol_info (records (analyse_symbols exact_libraries 2 [growing_record, flat_record]) ! 0) =
     symbol_info growing_record \<and>
   records (analyse_symbols exact_libraries 2 [growing_record, flat_record]) ! 1 = flat_record"
proof -
  have n: "\<forall>r ps. determine_exp_trend exact_libraries (symbol_hist_data ([growing_record, flat_record] ! 1)) r2_threshold_default
      \<noteq> Inr (Exponential r ps)"
    using flat_trend by (simp add: flat_record_def)
  from analysis_frame[of exact_libraries 2 "[growing_record, flat_record]"] n show ?thesis
    by (auto simp: less_Suc_eq numeral_2_eq_2)
qed

theorem cache_round_trip_witness:
  "load_cached_symbol_data (cache_symbol_data [growing_record] [CACHE_FILENAME \<mapsto> Garbage]) =
     Inr [growing_record]"
  using cache_round_trip[of "[growing_record]" "[CACHE_FILENAME \<mapsto> Garbage]"] by simp

theorem read_from_cache_witness:
  "get_symbol_data example_provider True 100
     \<lparr>files = [CACHE_FILENAME \<mapsto> Pickle [flat_record]], calls = []\<rparr> =
   (Inr [flat_record], \<lparr>files = [CACHE_FILENAME \<mapsto> Pickle [flat_record]], calls = []\<rparr>)"
  using read_from_cache[of example_provider 100
      "\<lparr>files = [CACHE_FILENAME \<mapsto> Pickle [flat_record]], calls = []\<rparr>"]
  by (simp add: load_cached_symbol_data_def)

subsection \<open>Series that the regression rejects or cannot rank\<close>

theorem short_series_counterexample:
  "determine_exp_trend exact_libraries [None, Some 1] r2_threshold_default = Inr NotExponential \<and>
   determine_exp_trend exact_libraries [None] r2_threshold_default = Inl ValueError \<and>
   analyse_symbols exact_libraries 2 [missing_record, growing_record] =
     \<lparr>records = [missing_record, growing_record], charts = [], raised = Some ValueError\<rparr> \<and>
   records (analyse_symbols exact_libraries 2 [growing_record]) \<noteq> [growing_record]"
proof -
  have a: "determine_exp_trend exact_libraries [None, Some 1] r2_threshold_default = Inr NotExponential"
    by (rule trend_one[of _ 1]) simp_all
  have b: "determine_exp_trend exact_libraries [None] r2_threshold_default = Inl ValueError"
    by (simp add: determine_exp_trend_def check_array_def)
  have c: "analyse_symbol exact_libraries 2 missing_record = (missing_record, [], Some ValueError)"
    using b by (simp add: analyse_symbol_def missing_record_def)
  have "records (analyse_symbols exact_libraries 2 [growing_record]) =
      [growing_record\<lparr>r2 := Fin 1, cagr := Fin (exp 1 - 1)\<rparr>]"
    by (simp add: growing_analysed)
  then have d: "records (analyse_symbols exact_libraries 2 [growing_record]) \<noteq> [growing_record]"
    by (simp add: growing_record_def)
  from a b c d show ?thesis by simp
qed

text \<open>
  Claim C2, as the code has it. With exactly one remaining observation, which is positive,
  the analysis of the series does not fail: it returns the not-exponential result (the
  coefficient of determination of one sample is NaN, and the comparison with the threshold
  is false), the record is left as it was and the pass goes on to the next record. With
  no remaining observation the regression raises ValueError, and the pass over the list
  ends there with that exception, the record and every later record left as they were.
\<close>

theorem short_series:
  "(dropna data = [x] \<and> 0 < x \<longrightarrow>
      determine_exp_trend lib data thr = Inr NotExponential \<and>
      (symbol_hist_data sd = data \<longrightarrow>
         analyse_symbol lib years sd = (sd, [], None) \<and>
         records (analyse_symbols lib years (sd # rest)) = sd # records (analyse_symbols lib years rest))) \<and>
   (dropna data = [] \<longrightarrow>
      determine_exp_trend lib data thr = Inl ValueError \<and>
      (symbol_hist_data sd = data \<longrightarrow>
         analyse_symbols lib years (sd # rest) =
           \<lparr>records = sd # rest, charts = [], raised = Some ValueError\<rparr>))"
proof (intro conjI impI)
  assume a: "dropna data = [x] \<and> 0 < x"
  then show t: "determine_exp_trend lib data thr = Inr NotExponential" for thr
    using trend_one[of data x] by simp
  assume "symbol_hist_data sd = data"
  with t show s: "analyse_symbol lib years sd = (sd, [], None)"
    using analyse_symbol_not_exponential by blast
  then show "records (analyse_symbols lib years (sd # rest)) = sd # records (analyse_symbols lib years rest)"
    by (simp add: Let_def)
next
  assume e: "dropna data = []"
  then show t: "determine_exp_trend lib data thr = Inl ValueError" for thr
    by (rule trend_empty)
  assume "symbol_hist_data sd = data"
  with t have "analyse_symbol lib years sd = (sd, [], Some ValueError)"
    using analyse_symbol_error by blast
  then show "analyse_symbols lib years (sd # rest) =
      \<lparr>records = sd # rest, charts = [], raised = Some ValueError\<rparr>"
    by simp
qed

theorem short_series_witness:
  "dropna [None, Some 1] = [1] \<and> (0::real) < 1 \<and> symbol_hist_data short_record = [None, Some 1] \<and>
   analyse_symbol exact_libraries 2 short_record = (short_record, [], None) \<and>
   dropna [None] = [] \<and> symbol_hist_data missing_record = [None] \<and>
   analyse_symbols exact_libraries 2 [missing_record, growing_record] =
     \<lparr>records = [missing_record, growing_record], charts = [], raised = Some ValueError\<rparr>"
proof -
  have h1: "dropna [None, Some 1] = [1] \<and> (0::real) < 1" by simp
  have h2: "symbol_hist_data short_record = [None, Some 1]" by (simp add: short_record_def)
  have h3: "dropna [None] = []" by simp
  have h4: "symbol_hist_data missing_record = [None]" by (simp add: missing_record_def)
  from short_series[of "[None, Some 1]" 1 exact_libraries r2_threshold_default short_record 2 "[]"] h1 h2
  have a: "analyse_symbol exact_libraries 2 short_record = (short_record, [], None)" by blast
  from short_series[of "[None]" 0 exact_libraries r2_threshold_default missing_record 2 "[growing_record]"] h3 h4
  have b: "analyse_symbols exact_libraries 2 [missing_record, growing_record] =
     \<lparr>records = [missing_record, growing_record], charts = [], raised = Some ValueError\<rparr>"
    by blast
  from h1 h2 h3 h4 a b show ?thesis by blast
qed

theorem nonpositive_price_counterexample:
  "np_log 0 = NInf \<and>
   determine_exp_trend exact_libraries [Some 1, Some 0] r2_threshold_default = Inl ValueError \<and>
   analyse_symbols exact_libraries 2 [zero_record, growing_record] =
     \<lparr>records = [zero_record, growing_record], charts = [], raised = Some ValueError\<rparr> \<and>
   records (analyse_symbols exact_libraries 2 [growing_record, zero_record]) \<noteq> [growing_record, zero_record]"
proof -
  have b: "determine_exp_trend exact_libraries [Some 1, Some 0] r2_threshold_default = Inl ValueError"
    by (simp add: determine_exp_trend_def check_array_def np_log_def)
  have c: "analyse_symbol exact_libraries 2 zero_record = (zero_record, [], Some ValueError)"
    using b by (simp add: analyse_symbol_def zero_record_def)
  have "records (analyse_symbols exact_libraries 2 [growing_record, zero_record]) =
      [growing_record\<lparr>r2 := Fin 1, cagr := Fin (exp 1 - 1)\<rparr>, zero_record]"
    by (simp add: growing_analysed c)
  then have d: "records (analyse_symbols exact_libraries 2 [growing_record, zero_record]) \<noteq> [growing_record, zero_record]"
    by (simp add: growing_record_def)
  from b c d show ?thesis by (simp add: np_log_def)
qed

text \<open>
  Claim C3, as the code has it. When a remaining price is zero or negative, the logarithm is
  taken all the same, the regression raises ValueError on the non-finite value, and nothing
  is classified; the pass over the list ends at that record with the exception, leaving the
  record and every later record as they were.
\<close>

theorem nonpositive_price:
  assumes "\<exists>x\<in>set (dropna data). x \<le> 0"
  shows "determine_exp_trend lib data thr = Inl ValueError \<and>
         (symbol_hist_data sd = data \<longrightarrow>
            analyse_symbols lib years (sd # rest) =
              \<lparr>records = sd # rest, charts = [], raised = Some ValueError\<rparr>)"
proof -
  have t: "determine_exp_trend lib data thr = Inl ValueError" for thr
    using trend_nonpos[OF assms] .
  have "symbol_hist_data sd = data \<longrightarrow> analyse_symbol lib years sd = (sd, [], Some ValueError)"
    using t analyse_symbol_error by blast
  with t show ?thesis by auto
qed

theorem nonpositive_price_witness:
  "(\<exists>x\<in>set (dropna [Some 1, Some 0]). x \<le> 0) \<and>
   symbol_hist_data zero_record = [Some 1, Some 0] \<and>
   determine_exp_trend exact_libraries [Some 1, Some 0] r2_threshold_default = Inl ValueError \<and>
   analyse_symbols exact_libraries 2 [zero_record, growing_record] =
     \<lparr>records = [zero_record, growing_record], charts = [], raised = Some ValueError\<rparr>"
proof -
  have h1: "\<exists>x\<in>set (dropna [Some 1, Some 0]). x \<le> (0::real)" by simp
  have h2: "symbol_hist_data zero_record = [Some 1, Some 0]" by (simp add: zero_record_def)
  from nonpositive_price[OF h1, of exact_libraries r2_threshold_default zero_record 2 "[growing_record]"] h1 h2
  show ?thesis by blast
qed

subsection \<open>The growth rate of the example of the specification\<close>

lemma cagr_example:
  "determine_cagr exact_libraries [Some 100, Some 120, Some (100 * (11 / 10) ^ 5)] 5 =
     Inr (Fin (1 / 10))"
proof -
  have "((11 / 10 :: real) ^ 5) powr (1 / 5) = 11 / 10"
  proof -
    have "((11 / 10 :: real) ^ 5) = (11 / 10) powr 5"
      by (simp add: powr_numeral)
    then have "((11 / 10 :: real) ^ 5) powr (1 / 5) = ((11 / 10) powr 5) powr (1 / 5)"
      by simp
    also have "\<dots> = (11 / 10) powr (5 * (1 / 5))"
      by (rule powr_powr)
    also have "\<dots> = 11 / 10" by simp
    finally show ?thesis .
  qed
  then show ?thesis by (simp add: determine_cagr_def row_item_def exact_libraries_simps)
qed

subsection \<open>Exact least squares\<close>

lemma sum_pairs_fst:
  "length ts = length ys \<Longrightarrow> (\<Sum>(t, y)\<leftarrow>zip ts ys. f t) = (\<Sum>t\<leftarrow>ts. f t)"
  by (induction ts ys rule: list_induct2) auto

lemma sum_pairs_snd:
  "length ts = length ys \<Longrightarrow> (\<Sum>(t, y)\<leftarrow>zip ts ys. f y) = (\<Sum>y\<leftarrow>ys. f y)"
  by (induction ts ys rule: list_induct2) auto

lemma sum_list_centred:
  assumes "xs \<noteq> []"
  shows "(\<Sum>x\<leftarrow>xs. x - mean xs) = (0::real)"
proof -
  have "(\<Sum>x\<leftarrow>xs. x - c) = sum_list xs - real (length xs) * c" for c :: real
    by (induction xs) (simp_all add: algebra_simps)
  then have "(\<Sum>x\<leftarrow>xs. x - mean xs) = sum_list xs - real (length xs) * mean xs" .
  also have "\<dots> = 0" using assms by (simp add: mean_def)
  finally show ?thesis .
qed

text \<open>The normal equations of the fitted line: the residuals sum to zero and are
  orthogonal to the centred times.\<close>

lemma fit_residual_sum:
  assumes "length ts = length ys" and "ys \<noteq> []"
  shows "(\<Sum>(t, y)\<leftarrow>zip ts ys. y - (coef (ols_fit ts ys) * t + intercept (ols_fit ts ys))) = 0"
proof -
  define k where "k = coef (ols_fit ts ys)"
  have i: "intercept (ols_fit ts ys) = mean ys - k * mean ts"
    by (simp add: ols_fit_def Let_def k_def)
  have ne: "ts \<noteq> []" using assms by auto
  have "(\<Sum>(t, y)\<leftarrow>zip ts ys. y - (k * t + (mean ys - k * mean ts))) =
      (\<Sum>(t, y)\<leftarrow>zip ts ys. (y - mean ys) - k * (t - mean ts))"
    by (rule arg_cong[where f = sum_list]) (auto simp: algebra_simps)
  also have "\<dots> = (\<Sum>(t, y)\<leftarrow>zip ts ys. y - mean ys) - k * (\<Sum>(t, y)\<leftarrow>zip ts ys. t - mean ts)"
    by (simp add: sum_list_subtractf sum_list_const_mult split_def)
  also have "\<dots> = 0"
    using sum_pairs_snd[OF assms(1), of "\<lambda>y. y - mean ys"]
      sum_pairs_fst[OF assms(1), of "\<lambda>t. t - mean ts"]
      sum_list_centred[OF assms(2)] sum_list_centred[OF ne]
    by simp
  finally show ?thesis by (simp add: i k_def)
qed

lemma sum_list_zero: "\<forall>x\<in>set xs. f x = (0::real) \<Longrightarrow> sum_list (map f xs) = 0"
  by (induction xs) auto

lemma sum_squares_zero:
  assumes "(\<Sum>x\<leftarrow>xs. f x * f x) = (0::real)" and "x \<in> set xs"
  shows "f x = 0"
proof -
  have "\<forall>v\<in>set (map (\<lambda>x. f x * f x) xs). 0 \<le> v" by auto
  then have "\<forall>v\<in>set (map (\<lambda>x. f x * f x) xs). v = 0"
    using assms(1) sum_list_nonneg_eq_0_iff[of "map (\<lambda>x. f x * f x) xs"] by blast
  with assms(2) show ?thesis by auto
qed

lemma fit_residual_orthogonal:
  assumes "length ts = length ys" and "ys \<noteq> []"
  shows "(\<Sum>(t, y)\<leftarrow>zip ts ys.
            (t - mean ts) * (y - (coef (ols_fit ts ys) * t + intercept (ols_fit ts ys)))) = 0"
proof -
  define k where "k = coef (ols_fit ts ys)"
  define sxx where "sxx = (\<Sum>(t, y)\<leftarrow>zip ts ys. (t - mean ts) * (t - mean ts))"
  define sxy where "sxy = (\<Sum>(t, y)\<leftarrow>zip ts ys. (t - mean ts) * (y - mean ys))"
  have i: "intercept (ols_fit ts ys) = mean ys - k * mean ts"
    by (simp add: ols_fit_def Let_def k_def)
  have k: "k = (if sxx = 0 then 0 else sxy / sxx)"
    by (simp add: ols_fit_def Let_def k_def sxx_def sxy_def)
  have z: "sxy = 0" if "sxx = 0"
  proof -
    have "\<forall>p\<in>set (zip ts ys). (case p of (t, y) \<Rightarrow> (t - mean ts) * (y - mean ys)) = 0"
    proof
      fix p assume p: "p \<in> set (zip ts ys)"
      have "(\<Sum>p\<leftarrow>zip ts ys. (fst p - mean ts) * (fst p - mean ts)) = 0"
        using that by (simp add: sxx_def split_def)
      from sum_squares_zero[where f = "\<lambda>p. fst p - mean ts", OF this p]
      show "(case p of (t, y) \<Rightarrow> (t - mean ts) * (y - mean ys)) = 0"
        by (simp add: split_def)
    qed
    then show ?thesis unfolding sxy_def by (rule sum_list_zero)
  qed
  have "(\<Sum>(t, y)\<leftarrow>zip ts ys. (t - mean ts) * (y - (k * t + (mean ys - k * mean ts)))) =
      (\<Sum>(t, y)\<leftarrow>zip ts ys.
         (t - mean ts) * (y - mean ys) - k * ((t - mean ts) * (t - mean ts)))"
    by (rule arg_cong[where f = sum_list]) (auto simp: algebra_simps)
  also have "\<dots> = sxy - k * sxx"
    by (simp add: sum_list_subtractf sum_list_const_mult split_def sxx_def sxy_def)
  also have "\<dots> = 0" using k z by auto
  finally show ?thesis by (simp add: i k_def)
qed

lemma ss_res_pairs:
  "length ts = length ys \<Longrightarrow>
   ss_res ys (map g ts) = (\<Sum>(t, y)\<leftarrow>zip ts ys. (y - g t) * (y - g t))"
  unfolding ss_res_def by (induction ts ys rule: list_induct2) auto

text \<open>The fitted line has the least residual sum of squares among all lines.\<close>

lemma fit_least_squares:
  assumes "length ts = length ys" and "ys \<noteq> []"
  shows "ss_res ys (map (ols_predict_row (ols_fit ts ys)) ts) \<le> ss_res ys (map (\<lambda>t. a * t + b) ts)"
proof -
  define k where "k = coef (ols_fit ts ys)"
  define c where "c = intercept (ols_fit ts ys)"
  define d where "d = (k - a) * mean ts + c - b"
  have s: "(\<Sum>(t, y)\<leftarrow>zip ts ys. y - (k * t + c)) = 0"
    using fit_residual_sum[OF assms] by (simp add: k_def c_def)
  have o: "(\<Sum>(t, y)\<leftarrow>zip ts ys. (t - mean ts) * (y - (k * t + c))) = 0"
    using fit_residual_orthogonal[OF assms] by (simp add: k_def c_def)
  have "(\<Sum>(t, y)\<leftarrow>zip ts ys. (y - (a * t + b)) * (y - (a * t + b))) =
      (\<Sum>(t, y)\<leftarrow>zip ts ys.
         (y - (k * t + c)) * (y - (k * t + c)) +
         (2 * (k - a) * ((t - mean ts) * (y - (k * t + c))) + 2 * d * (y - (k * t + c)) +
          ((k - a) * (t - mean ts) + d) * ((k - a) * (t - mean ts) + d)))"
    by (rule arg_cong[where f = sum_list]) (auto simp: algebra_simps d_def)
  also have "\<dots> =
      (\<Sum>(t, y)\<leftarrow>zip ts ys. (y - (k * t + c)) * (y - (k * t + c))) +
      (2 * (k - a) * (\<Sum>(t, y)\<leftarrow>zip ts ys. (t - mean ts) * (y - (k * t + c))) +
       2 * d * (\<Sum>(t, y)\<leftarrow>zip ts ys. y - (k * t + c)) +
       (\<Sum>(t, y)\<leftarrow>zip ts ys. ((k - a) * (t - mean ts) + d) * ((k - a) * (t - mean ts) + d)))"
    by (simp add: sum_list_addf sum_list_const_mult split_def)
  also have "\<dots> =
      (\<Sum>(t, y)\<leftarrow>zip ts ys. (y - (k * t + c)) * (y - (k * t + c))) +
      (\<Sum>(t, y)\<leftarrow>zip ts ys. ((k - a) * (t - mean ts) + d) * ((k - a) * (t - mean ts) + d))"
    by (simp add: s o)
  finally have e: "ss_res ys (map (\<lambda>t. a * t + b) ts) =
      ss_res ys (map (ols_predict_row (ols_fit ts ys)) ts) +
      (\<Sum>(t, y)\<leftarrow>zip ts ys. ((k - a) * (t - mean ts) + d) * ((k - a) * (t - mean ts) + d))"
    by (simp add: ss_res_pairs[OF assms(1)] ols_predict_row_def k_def c_def)
  have "0 \<le> (\<Sum>(t, y)\<leftarrow>zip ts ys. ((k - a) * (t - mean ts) + d) * ((k - a) * (t - mean ts) + d))"
    by (rule sum_list_nonneg) auto
  with e show ?thesis by simp
qed

lemma ss_res_nonneg: "0 \<le> ss_res ys ps"
  unfolding ss_res_def by (rule sum_list_nonneg) auto

lemma ss_res_mean:
  "length ts = length ys \<Longrightarrow> ss_res ys (map (\<lambda>t. 0 * t + mean ys) ts) = ss_tot ys"
  using sum_pairs_snd[of ts ys "\<lambda>y. (y - mean ys) * (y - mean ys)"]
  by (simp add: ss_res_pairs ss_tot_def)

text \<open>
  Without rounding, the coefficient of determination of a fitted line lies between 0
  and 1: the branch of the score that gives 0 for a constant target is never taken for a
  least-squares fit.
\<close>

lemma fit_r2_bounds:
  assumes "length ts = length ys" and "ys \<noteq> []"
  shows "0 \<le> ols_score ys (map (ols_predict_row (ols_fit ts ys)) ts) \<and>
         ols_score ys (map (ols_predict_row (ols_fit ts ys)) ts) \<le> 1"
proof -
  define s where "s = ss_res ys (map (ols_predict_row (ols_fit ts ys)) ts)"
  have le: "s \<le> ss_tot ys"
    using fit_least_squares[OF assms, of 0 "mean ys"] ss_res_mean[OF assms(1)]
    by (simp add: s_def)
  have nn: "0 \<le> s" by (simp add: s_def ss_res_nonneg)
  show ?thesis
  proof (cases "s = 0")
    case True
    then show ?thesis by (simp add: ols_score_def s_def)
  next
    case False
    with nn le have pos: "0 < ss_tot ys" by linarith
    then have "s / ss_tot ys \<le> 1" using le by simp
    moreover have "0 \<le> s / ss_tot ys" using nn pos by simp
    ultimately show ?thesis
      using False pos by (simp add: ols_score_def s_def[symmetric])
  qed
qed

lemma fitted_score_bounds:
  assumes "dropna data \<noteq> []"
  shows "0 \<le> fitted_score exact_libraries data \<and> fitted_score exact_libraries data \<le> 1"
proof -
  have l: "length (map real [0..<length (dropna data)]) = length (log_prices data)"
    by (simp add: log_prices_def)
  have n: "log_prices data \<noteq> []" using assms by (simp add: log_prices_def)
  show ?thesis
    unfolding fitted_score_def fitted_model_def exact_libraries_def libraries.simps
    by (rule fit_r2_bounds[OF l n])
qed

text \<open>
  A series that follows \<open>p0 * exp (k * t)\<close> exactly, with \<open>k > 0\<close>: the fitted slope is
  \<open>k\<close>, the coefficient of determination is 1 and the series is classified exponential,
  for every threshold up to 1.
\<close>

lemma exact_exponential:
  assumes d: "dropna data = map (\<lambda>i. p0 * exp (k * real i)) [0..<n]"
    and n: "2 \<le> n" and p0: "0 < p0" and k: "0 < k" and thr: "thr \<le> 1"
  shows "coef (fitted_model exact_libraries data) = k"
    and "fitted_score exact_libraries data = 1"
    and "\<exists>ps. determine_exp_trend exact_libraries data thr = Inr (Exponential (Fin 1) ps)"
proof -
  define ts where "ts = map real [0..<length (dropna data)]"
  define ys where "ys = log_prices data"
  define c where "c = coef (ols_fit ts ys)"
  define b where "b = intercept (ols_fit ts ys)"
  have ts: "ts = map real [0..<n]" by (simp add: ts_def d)
  have ys: "ys = map (\<lambda>i. k * real i + ln p0) [0..<n]"
    using p0 by (simp add: ys_def log_prices_def d ln_mult)
  have len: "length ts = length ys" by (simp add: ts ys)
  have ne: "ys \<noteq> []" using n by (auto simp: ys)
  have z: "zip ts ys = map (\<lambda>i. (real i, k * real i + ln p0)) [0..<n]"
    by (simp add: ts ys zip_map_map zip_same_conv_map)
  have "ss_res ys (map (\<lambda>t. k * t + ln p0) ts) = 0"
    by (simp add: ss_res_pairs[OF len] z comp_def)
  with fit_least_squares[OF len ne, of k "ln p0"]
    ss_res_nonneg[of ys "map (ols_predict_row (ols_fit ts ys)) ts"]
  have r0: "ss_res ys (map (ols_predict_row (ols_fit ts ys)) ts) = 0" by simp
  have pr: "ols_predict_row (ols_fit ts ys) = (\<lambda>t. c * t + b)"
    by (rule ext) (simp add: ols_predict_row_def c_def b_def)
  from r0 have s0: "(\<Sum>p\<leftarrow>zip ts ys. (snd p - (c * fst p + b)) * (snd p - (c * fst p + b))) = 0"
    using ss_res_pairs[OF len, of "\<lambda>t. c * t + b"]
    by (simp add: pr split_def)
  have mem: "(real i, k * real i + ln p0) \<in> set (zip ts ys)" if "i < n" for i
    unfolding z set_map using that by (intro imageI) simp
  have m0: "(real 0, k * real 0 + ln p0) \<in> set (zip ts ys)"
    using n by (intro mem) simp
  have m1: "(real 1, k * real 1 + ln p0) \<in> set (zip ts ys)"
    using n by (intro mem) simp
  from sum_squares_zero[where f = "\<lambda>p. snd p - (c * fst p + b)", OF s0 m0]
  have b: "b = ln p0" by simp
  from sum_squares_zero[where f = "\<lambda>p. snd p - (c * fst p + b)", OF s0 m1]
  have "c = k" using b by simp
  then show ck: "coef (fitted_model exact_libraries data) = k"
    by (simp add: fitted_model_def exact_libraries_def c_def ts_def ys_def)
  from r0 show r1: "fitted_score exact_libraries data = 1"
    by (simp add: fitted_score_def fitted_model_def exact_libraries_def ols_score_def
        ts_def ys_def)
  have dn: "2 \<le> length (dropna data)" using n by (simp add: d)
  have pos: "\<forall>x\<in>set (dropna data). 0 < x" using p0 by (auto simp: d)
  show "\<exists>ps. determine_exp_trend exact_libraries data thr = Inr (Exponential (Fin 1) ps)"
    using trend_accepted[OF dn pos, of exact_libraries thr] ck r1 k thr by simp
qed

subsection \<open>The classification\<close>

text \<open>
  Claim C1. Whatever the libraries return, a series with at least two remaining
  observations, all positive, is analysed without error, and it is classified exponential
  exactly when the score of its log-linear fit is at least the threshold and the fitted
  slope is strictly positive. The fit is spelled out: the line is the one that the library
  fits to the natural logarithms of the remaining prices against their positions
  \<open>0, 1, \<dots>, n - 1\<close>, and the score is the one that the library gives to the
  predictions of that line at these positions. In particular a slope that is zero or
  negative is never classified exponential, however good the fit. A positive
  classification carries that score as its coefficient of determination.
\<close>

theorem exponential_iff_fit:
  assumes "2 \<le> length (dropna data)" and "\<forall>x\<in>set (dropna data). 0 < x"
  shows "\<exists>tr.
           determine_exp_trend lib data thr = Inr tr \<and>
           (let ts = map real [0..<length (dropna data)];
                ys = map ln (dropna data);
                line = fit lib ts ys;
                r = score lib ys (map (predict_row lib line) ts)
            in (is_exponential tr \<longleftrightarrow> thr \<le> r \<and> 0 < coef line) \<and>
               (coef line \<le> 0 \<longrightarrow> \<not> is_exponential tr) \<and>
               (is_exponential tr \<longrightarrow> trend_r2 tr = Some (Fin r)))"
proof -
  define ts where "ts = map real [0..<length (dropna data)]"
  define ys where "ys = map ln (dropna data)"
  define line where "line = fit lib ts ys"
  define r where "r = score lib ys (map (predict_row lib line) ts)"
  from assms(1) have ne: "dropna data \<noteq> []" by auto
  have logs: "check_array (map np_log (dropna data)) = Inr ys"
    unfolding ys_def by (rule check_array_log[OF ne assms(2)])
  have index: "time_index (dropna data) = ts"
    by (simp add: time_index_def ts_def)
  have two: "r2_score lib ys (predict lib line ts) = Fin r"
    using assms(1) by (simp add: r2_score_def predict_def r_def ts_def)
  have t: "determine_exp_trend lib data thr =
      (if thr \<le> r \<and> 0 < coef line
       then Inr (Exponential (Fin r) (map exp (predict lib line ts)))
       else Inr NotExponential)"
    unfolding determine_exp_trend_def Let_def logs index
    by (simp add: line_def[symmetric] two)
  have "\<exists>tr. determine_exp_trend lib data thr = Inr tr \<and>
      (is_exponential tr \<longleftrightarrow> thr \<le> r \<and> 0 < coef line) \<and>
      (coef line \<le> 0 \<longrightarrow> \<not> is_exponential tr) \<and>
      (is_exponential tr \<longrightarrow> trend_r2 tr = Some (Fin r))"
  proof (cases "thr \<le> r \<and> 0 < coef line")
    case True
    with t have "determine_exp_trend lib data thr =
        Inr (Exponential (Fin r) (map exp (predict lib line ts)))"
      by simp
    with True show ?thesis by auto
  next
    case False
    with t have "determine_exp_trend lib data thr = Inr NotExponential" by auto
    with False show ?thesis by auto
  qed
  then show ?thesis
    unfolding Let_def ts_def ys_def line_def r_def .
qed

theorem exponential_iff_fit_witness:
  "2 \<le> length (dropna [Some 1, Some (exp 1), Some (exp 2)]) \<and>
   (\<exists>tr. determine_exp_trend exact_libraries [Some 1, Some (exp 1), Some (exp 2)]
            r2_threshold_default = Inr tr \<and>
      is_exponential tr \<and> trend_r2 tr = Some (Fin 1))"
proof -
  have h1: "2 \<le> length (dropna [Some 1, Some (exp 1), Some (exp 2)])" by simp
  have h2: "\<forall>x\<in>set (dropna [Some 1, Some (exp 1), Some (exp 2)]). (0::real) < x" by simp
  have m: "fit exact_libraries (map real [0..<length (dropna [Some 1, Some (exp 1), Some (exp 2)])])
      (map ln (dropna [Some 1, Some (exp 1), Some (exp 2)])) = \<lparr>coef = 1, intercept = 0\<rparr>"
    using example_fit(1) by (simp add: fitted_model_def log_prices_def)
  have s: "score exact_libraries (map ln (dropna [Some 1, Some (exp 1), Some (exp 2)]))
      (map (predict_row exact_libraries \<lparr>coef = 1, intercept = 0\<rparr>)
         (map real [0..<length (dropna [Some 1, Some (exp 1), Some (exp 2)])])) = 1"
    using example_fit(2) unfolding fitted_score_def fitted_model_def log_prices_def m .
  from exponential_iff_fit[OF h1 h2, of exact_libraries r2_threshold_default]
  obtain tr where
    t: "determine_exp_trend exact_libraries [Some 1, Some (exp 1), Some (exp 2)]
          r2_threshold_default = Inr tr"
    and c: "is_exponential tr \<longleftrightarrow> r2_threshold_default \<le> (1::real) \<and> (0::real) < 1"
    and r: "is_exponential tr \<longrightarrow> trend_r2 tr = Some (Fin 1)"
    unfolding Let_def m s by auto
  from c have "is_exponential tr" by (simp add: r2_threshold_default_def)
  with t r h1 show ?thesis by blast
qed

subsection \<open>The growth of ten percent a year, through the pass\<close>

lemma dropna_present: "dropna (map (\<lambda>i. Some (f i)) is) = map f is"
  by (induction "is") auto

lemma upt_six: "[0..<6] = [0, 1, 2, 3, 4, 5 :: nat]"
  by (simp add: eval_nat_numeral)

lemma ten_percent_trend:
  "\<exists>ps. determine_exp_trend exact_libraries (symbol_hist_data ten_percent_record)
          r2_threshold_default = Inr (Exponential (Fin 1) ps)"
proof -
  have d: "dropna (symbol_hist_data ten_percent_record) =
      map (\<lambda>i. 100 * exp (ln (11 / 10) * real i)) [0..<6]"
    unfolding ten_percent_record_def by (simp only: SymbolData.simps dropna_present)
  show ?thesis
    by (rule exact_exponential(3)[OF d]) (simp_all add: r2_threshold_default_def)
qed

lemma ten_percent_analysed:
  "snd (snd (analyse_symbol exact_libraries 5 ten_percent_record)) = None"
proof -
  obtain ps where t: "determine_exp_trend exact_libraries (symbol_hist_data ten_percent_record)
      r2_threshold_default = Inr (Exponential (Fin 1) ps)"
    using ten_percent_trend by blast
  have i: "symbol_info ten_percent_record ''symbol'' = Some ''T''"
    by (simp add: ten_percent_record_def)
  have "length ps = length (dropna (symbol_hist_data ten_percent_record))"
    using trend_predictions[OF t] .
  also have "\<dots> = length (symbol_hist_data ten_percent_record)"
    unfolding ten_percent_record_def by (simp only: SymbolData.simps dropna_present length_map)
  finally have s: "save_plot_img (symbol_hist_data ten_percent_record) ''T'' ps =
      Inr ''charts/T_chart.png''"
    by (simp add: save_plot_img_def)
  have "\<exists>g. determine_cagr exact_libraries (symbol_hist_data ten_percent_record) 5 = Inr g"
    by (simp add: determine_cagr_def row_item_def exact_libraries_simps ten_percent_record_def
        split: list.splits)
  then obtain g where
    c: "determine_cagr exact_libraries (symbol_hist_data ten_percent_record) 5 = Inr g"
    by blast
  show ?thesis
    using t i s c by (simp add: analyse_symbol_def)
qed

lemma zero_analysed:
  "analyse_symbol lib years zero_record = (zero_record, [], Some ValueError)"
proof -
  have "determine_exp_trend lib (symbol_hist_data zero_record) r2_threshold_default =
      Inl ValueError"
    by (rule trend_nonpos) (simp add: zero_record_def)
  then show ?thesis by (rule analyse_symbol_error)
qed

lemma ten_percent_pass:
  "raised (analyse_symbols exact_libraries 5 [ten_percent_record]) = None"
  "raised (analyse_symbols exact_libraries 5 [ten_percent_record, flat_record]) = None"
  "raised (analyse_symbols exact_libraries 5 [ten_percent_record, flat_record, zero_record]) =
     Some ValueError"
  using ten_percent_analysed
  by (cases "analyse_symbol exact_libraries 5 ten_percent_record";
      simp add: flat_analysed zero_analysed)+

theorem growth_rate_witness:
  "cagr (records (analyse_symbols exact_libraries 5
           [ten_percent_record, flat_record, zero_record]) ! 0) = Fin (1 / 10) \<and>
   cagr (records (analyse_symbols exact_libraries 5
           [ten_percent_record, flat_record, zero_record]) ! 1) = Fin 0 \<and>
   cagr (records (analyse_symbols exact_libraries 5
           [ten_percent_record, flat_record, zero_record]) ! 2) = Fin 0 \<and>
   raised (analyse_symbols exact_libraries 5 [ten_percent_record, flat_record, zero_record]) =
     Some ValueError"
proof -
  define xs where "xs = [ten_percent_record, flat_record, zero_record]"
  define run where "run = analyse_symbols exact_libraries 5 xs"
  have t0: "\<exists>r ps. determine_exp_trend exact_libraries (symbol_hist_data (xs ! 0))
      r2_threshold_default = Inr (Exponential r ps)"
    using ten_percent_trend by (auto simp: xs_def)
  have r0: "raised (analyse_symbols exact_libraries 5 (take (Suc 0) xs)) = None"
    using ten_percent_pass(1) by (simp add: xs_def)
  have t1: "\<not> (\<exists>r ps. determine_exp_trend exact_libraries (symbol_hist_data (xs ! 1))
      r2_threshold_default = Inr (Exponential r ps))"
    using flat_trend by (simp add: xs_def flat_record_def)
  have r2: "raised (analyse_symbols exact_libraries 5 (take (Suc 2) xs)) \<noteq> None"
    using ten_percent_pass(3) by (simp add: xs_def)
  have p: "exp (ln (11 / 10) * 5) powr (1 / 5) = (11 / 10 :: real)"
    by (simp add: powr_def)
  have l0: "0 < length xs" and l1: "1 < length xs" and l2: "2 < length xs"
    by (simp_all add: xs_def)
  from growth_rate[OF l0, of exact_libraries 5] t0 r0
  obtain p0 p1 rest where h: "symbol_hist_data (xs ! 0) = Some p0 # rest"
    and l: "last (Some p0 # rest) = Some p1"
    and g: "cagr (records run ! 0) = Fin ((p1 / p0) powr (1 / real_of_int 5) - 1)"
    unfolding run_def by auto
  from h have "p0 = 100" by (simp add: xs_def ten_percent_record_def upt_six)
  moreover from h l have "p1 = 100 * exp (ln (11 / 10) * 5)"
    by (auto simp: xs_def ten_percent_record_def upt_six)
  ultimately have g0: "cagr (records run ! 0) = Fin (1 / 10)"
    using g by (simp add: p)
  have n1: "\<not> ((\<exists>r ps. determine_exp_trend exact_libraries (symbol_hist_data (xs ! 1))
      r2_threshold_default = Inr (Exponential r ps)) \<and>
      raised (analyse_symbols exact_libraries 5 (take (Suc 1) xs)) = None)"
    using t1 by blast
  have n2: "\<not> ((\<exists>r ps. determine_exp_trend exact_libraries (symbol_hist_data (xs ! 2))
      r2_threshold_default = Inr (Exponential r ps)) \<and>
      raised (analyse_symbols exact_libraries 5 (take (Suc 2) xs)) = None)"
    using r2 by blast
  from growth_rate[OF l1, of exact_libraries 5, unfolded if_not_P[OF n1]]
  have g1: "cagr (records run ! 1) = Fin 0"
    unfolding run_def by (simp add: xs_def flat_record_def)
  from growth_rate[OF l2, of exact_libraries 5, unfolded if_not_P[OF n2]]
  have g2: "cagr (records run ! 2) = Fin 0"
    unfolding run_def by (simp add: xs_def zero_record_def)
  from g0 g1 g2 ten_percent_pass(3) show ?thesis
    unfolding run_def xs_def by blast
qed

subsection \<open>Constant series\<close>








end
